theory Spec2Isabelle
  imports Complex_Main "HOL-Library.AList"
begin

section \<open>Python values\<close>

text \<open>
  Exceptions of the source are values: a function that can raise returns \<open>exn + 'a\<close>,
  with \<open>Inl\<close> the exception. Only subclasses of Python's \<open>Exception\<close> are modelled.
\<close>

datatype exn = AttributeError | TypeError | IndexError | KeyError | ValueError
  | ZeroDivisionError | RuntimeError

text \<open>
  Python floats that the callers pass as plain arguments (prices, amounts) are finite
  numbers; they are modelled as exact reals, so binary rounding error is not part of the
  model. Python's \<open>/\<close> on floats raises on a zero divisor.
\<close>

definition py_div :: "real \<Rightarrow> real \<Rightarrow> exn + real" where
  "py_div a b = (if b = 0 then Inl ZeroDivisionError else Inr (a / b))"

text \<open>Python's \<open>round\<close>: to the nearest integer, a tie to the even neighbour.\<close>

definition py_round :: "real \<Rightarrow> int" where
  "py_round x =
     (let f = \<lfloor>x\<rfloor>; d = x - of_int f
      in if d < 1 / 2 then f else if 1 / 2 < d then f + 1
         else if even f then f else f + 1)"

text \<open>\<open>round(x, n)\<close>: the same at the n-th decimal place.\<close>

definition py_round_n :: "real \<Rightarrow> nat \<Rightarrow> real" where
  "py_round_n x n = of_int (py_round (x * 10 ^ n)) / 10 ^ n"

section \<open>Position sizing (DonchianStrategy.calculate_position_size)\<close>

text \<open>
  The returned dict, one field per key; a key that the returned dict does not have
  is \<open>None\<close>. \<open>risk_percent\<close> is a key whose value may itself be Python's None.
\<close>

record sizing_result =
  position_size :: real
  error :: "string option"
  risk_per_unit :: "real option"
  actual_risk_amount :: "real option"
  risk_percent :: "real option option"
  entry_price :: "real option"
  stop_loss :: "real option"

definition rejected :: "string \<Rightarrow> sizing_result" where
  "rejected msg =
     \<lparr>position_size = 0, error = Some msg, risk_per_unit = None,
      actual_risk_amount = None, risk_percent = None, entry_price = None,
      stop_loss = None\<rparr>"

text \<open>The local \<open>max_risk_amount = account_size * (max_risk_percent / 100)\<close>.\<close>

definition max_risk_amount :: "real \<Rightarrow> real \<Rightarrow> real" where
  "max_risk_amount account_size max_risk_percent = account_size * (max_risk_percent / 100)"

text \<open>The cap of lines 302-307; \<open>account_size is not None\<close> is the \<open>Some\<close> case.\<close>

definition cap_position :: "real \<Rightarrow> real \<Rightarrow> real option \<Rightarrow> real \<Rightarrow> exn + real" where
  "cap_position psize rpu account_size max_risk_percent =
     (case account_size of
        None \<Rightarrow> Inr psize
      | Some a \<Rightarrow>
          (case py_div (max_risk_amount a max_risk_percent) rpu of
             Inl e \<Rightarrow> Inl e
           | Inr max_position_size \<Rightarrow>
               Inr (if psize > max_position_size then max_position_size
                    else psize)))"

text \<open>
  The rounding ladder of lines 310-317. The message strings of the source are German;
  their non-ASCII letters are transliterated here (\<open>oe\<close>, \<open>ss\<close>).
\<close>

definition round_for_price :: "real \<Rightarrow> real \<Rightarrow> real" where
  "round_for_price price psize =
     (if price < 1 then py_round_n psize 3
      else if price < 10 then py_round_n psize 2
      else if price < 1000 then py_round_n psize 1
      else of_int (py_round psize))"

text \<open>\<open>(actual_risk_amount / account_size * 100) if account_size else None\<close>.\<close>

definition risk_percent_of :: "real \<Rightarrow> real option \<Rightarrow> exn + real option" where
  "risk_percent_of actual account_size =
     (case account_size of
        None \<Rightarrow> Inr None
      | Some a \<Rightarrow>
          if a = 0 then Inr None
          else (case py_div actual a of Inl e \<Rightarrow> Inl e | Inr q \<Rightarrow> Inr (Some (q * 100))))"

definition calculate_position_size ::
  "real \<Rightarrow> real \<Rightarrow> real \<Rightarrow> real option \<Rightarrow> real \<Rightarrow> exn + sizing_result" where
  "calculate_position_size price stop risk_amount account_size max_risk_percent =
     (let rpu = \<bar>price - stop\<bar>
      in if rpu \<le> 0 then Inr (rejected ''Stop-Loss ist zu nah am Eintrittspreis'')
         else
           (case py_div risk_amount rpu of
              Inl e \<Rightarrow> Inl e
            | Inr size0 \<Rightarrow>
                (case cap_position size0 rpu account_size max_risk_percent of
                   Inl e \<Rightarrow> Inl e
                 | Inr size1 \<Rightarrow>
                     (let size2 = round_for_price price size1
                      in if size2 \<le> 0
                         then Inr (rejected ''Berechnete Positionsgroesse ist zu klein'')
                         else
                           (let actual = size2 * rpu
                            in case risk_percent_of actual account_size of
                                 Inl e \<Rightarrow> Inl e
                               | Inr rp \<Rightarrow>
                                   Inr \<lparr>position_size = size2, error = None,
                                        risk_per_unit = Some rpu,
                                        actual_risk_amount = Some actual,
                                        risk_percent = Some rp,
                                        entry_price = Some price,
                                        stop_loss = Some stop\<rparr>)))))"

text \<open>The size before rounding: the risk budget per unit of risk, capped.\<close>

definition capped_size :: "real \<Rightarrow> real \<Rightarrow> real \<Rightarrow> real option \<Rightarrow> real \<Rightarrow> real" where
  "capped_size price stop risk_amount account_size max_risk_percent =
     (case account_size of
        None \<Rightarrow> risk_amount / \<bar>price - stop\<bar>
      | Some a \<Rightarrow> min (risk_amount / \<bar>price - stop\<bar>)
                     (a * max_risk_percent / 100 / \<bar>price - stop\<bar>))"

text \<open>Decimal places kept by the rounding ladder, as a function of the price.\<close>

definition size_decimals :: "real \<Rightarrow> nat" where
  "size_decimals price =
     (if price < 1 then 3 else if price < 10 then 2 else if price < 1000 then 1 else 0)"

section \<open>Connection monitor (BybitWebSocket._monitor_connection)\<close>

text \<open>
  The monitor is a sequential loop run by one background thread. What it reads from
  outside in one iteration is a \<open>tick\<close>: the flag \<open>self.is_running\<close> at the loop test
  (cleared by \<open>close()\<close>), the result of the socket probe, what \<open>self.connect()\<close> returns
  if it is called (it catches every exception and returns a bool), and \<open>time.time()\<close>.
  What the loop does is a list of actions: log records, calls of \<open>connect\<close>, pings and
  the monitor's own calls of \<open>time.sleep\<close>, in seconds.
\<close>

record websocket =
  reconnect_interval :: int
  ping_interval :: int
  last_ping_time :: real

definition init_websocket :: websocket where
  "init_websocket = \<lparr>reconnect_interval = 30, ping_interval = 20, last_ping_time = 0\<rparr>"

record tick =
  running :: bool
  connected :: bool
  connect_ok :: bool
  now :: real

datatype level = Info | Warning | Error | Critical

datatype message =
    NotConnected
  | Reconnected
  | ReconnectFailed nat nat
  | GivingUpAfter nat
  | MonitorError exn

datatype action = Log level message | CallConnect | SendPing | Sleep int

definition max_consecutive_failures :: nat where
  "max_consecutive_failures = 5"

text \<open>\<open>time.sleep\<close> raises ValueError on a negative duration.\<close>

definition time_sleep :: "int \<Rightarrow> exn + action" where
  "time_sleep d = (if d < 0 then Inl ValueError else Inr (Sleep d))"

text \<open>
  Results of one pass through the \<open>try\<close> block: the actions done, the object, the local
  counter \<open>reconnect_attempts\<close>, and the exception that ended the block, if any.
\<close>

type_synonym pass = "action list \<times> websocket \<times> nat \<times> exn option"

definition sleep_then :: "action list \<Rightarrow> websocket \<Rightarrow> nat \<Rightarrow> int \<Rightarrow> pass" where
  "sleep_then acts ws attempts d =
     (case time_sleep d of
        Inl e \<Rightarrow> (acts, ws, attempts, Some e)
      | Inr s \<Rightarrow> (acts @ [s], ws, attempts, None))"

text \<open>Lines 201-208: the ping when it is due, then ten seconds of sleep.\<close>

definition ping_and_wait :: "action list \<Rightarrow> websocket \<Rightarrow> nat \<Rightarrow> tick \<Rightarrow> pass" where
  "ping_and_wait acts ws attempts t =
     (if now t - last_ping_time ws > of_int (ping_interval ws)
      then sleep_then (acts @ [SendPing]) (ws\<lparr>last_ping_time := now t\<rparr>) attempts 10
      else sleep_then acts ws attempts 10)"

text \<open>Lines 171-208, the body of the \<open>try\<close>.\<close>

definition try_body :: "websocket \<Rightarrow> nat \<Rightarrow> tick \<Rightarrow> pass" where
  "try_body ws attempts t =
     (if \<not> connected t then
        (if connect_ok t
         then ping_and_wait [Log Warning NotConnected, CallConnect, Log Info Reconnected]
                ws 0 t
         else
           (let attempts' = attempts + 1;
                acts = [Log Warning NotConnected, CallConnect,
                        Log Error (ReconnectFailed attempts' max_consecutive_failures)]
            in if attempts' \<ge> max_consecutive_failures
               then sleep_then (acts @ [Log Critical (GivingUpAfter max_consecutive_failures)])
                      ws attempts' (reconnect_interval ws * 2)
               else sleep_then acts ws attempts' (reconnect_interval ws)))
      else ping_and_wait [] ws attempts t)"

text \<open>
  One iteration: the \<open>try\<close> block and, when it raised, the handler of lines 210-212,
  which logs and sleeps \<open>reconnect_interval\<close>; an exception of the handler leaves the loop.
\<close>

definition iteration :: "websocket \<Rightarrow> nat \<Rightarrow> tick \<Rightarrow> pass" where
  "iteration ws attempts t =
     (case try_body ws attempts t of
        (acts, ws', attempts', None) \<Rightarrow> (acts, ws', attempts', None)
      | (acts, ws', attempts', Some e) \<Rightarrow>
          sleep_then (acts @ [Log Error (MonitorError e)]) ws' attempts' (reconnect_interval ws'))"

text \<open>
  The loop over the ticks the environment supplies. It ends when \<open>is_running\<close> is false
  (\<open>Stopped\<close>) or when an exception leaves it (\<open>Crashed\<close>); \<open>Looping\<close> says that every
  tick supplied was consumed and the loop is at its test again, waiting for the next.
\<close>

datatype ending = Looping | Stopped | Crashed exn

record run =
  trace :: "action list"
  final_attempts :: nat
  ending :: ending

fun monitor_from :: "websocket \<Rightarrow> nat \<Rightarrow> tick list \<Rightarrow> run" where
  "monitor_from ws attempts [] = \<lparr>trace = [], final_attempts = attempts, ending = Looping\<rparr>"
| "monitor_from ws attempts (t # ts) =
     (if \<not> running t then \<lparr>trace = [], final_attempts = attempts, ending = Stopped\<rparr>
      else
        (case iteration ws attempts t of
           (acts, ws', attempts', Some e) \<Rightarrow>
             \<lparr>trace = acts, final_attempts = attempts', ending = Crashed e\<rparr>
         | (acts, ws', attempts', None) \<Rightarrow>
             (let r = monitor_from ws' attempts' ts in r\<lparr>trace := acts @ trace r\<rparr>)))"

text \<open>\<open>reconnect_attempts = 0\<close> before the loop.\<close>

definition monitor_connection :: "websocket \<Rightarrow> tick list \<Rightarrow> run" where
  "monitor_connection ws ticks = monitor_from ws 0 ticks"

text \<open>Readings of a trace: the sleeps, in order, and how often an action occurs.\<close>

fun sleeps :: "action list \<Rightarrow> int list" where
  "sleeps [] = []"
| "sleeps (Sleep d # as) = d # sleeps as"
| "sleeps (a # as) = sleeps as"

text \<open>A tick on which the socket is down and \<open>connect()\<close> fails, with the loop running.\<close>

definition failure :: "tick \<Rightarrow> bool" where
  "failure t \<longleftrightarrow> running t \<and> \<not> connected t \<and> \<not> connect_ok t"

text \<open>The sleep after the k-th consecutive failure.\<close>

definition backoff :: "websocket \<Rightarrow> nat \<Rightarrow> int" where
  "backoff ws k =
     (if max_consecutive_failures \<le> k then reconnect_interval ws * 2 else reconnect_interval ws)"

fun connect_calls :: "action list \<Rightarrow> nat" where
  "connect_calls [] = 0"
| "connect_calls (CallConnect # as) = Suc (connect_calls as)"
| "connect_calls (a # as) = connect_calls as"

fun critical_reports :: "action list \<Rightarrow> nat" where
  "critical_reports [] = 0"
| "critical_reports (Log Critical m # as) = Suc (critical_reports as)"
| "critical_reports (a # as) = critical_reports as"

text \<open>Two ticks for examples: the socket is down and the reconnect fails, or succeeds.\<close>

definition down :: tick where
  "down = \<lparr>running = True, connected = False, connect_ok = False, now = 0\<rparr>"

definition up_again :: tick where
  "up_again = \<lparr>running = True, connected = False, connect_ok = True, now = 0\<rparr>"


section \<open>Floats of the data frames\<close>

text \<open>
  Columns and indicators are NumPy floats: a division by zero gives an infinity or NaN
  instead of raising, and NaN makes every comparison false. A float is a finite number
  (an exact real), an infinity or NaN. Signed zeros are not distinguished: zero is
  taken as positive zero.
\<close>

datatype fl = Fin real | PInf | MInf | NaN

fun fneg :: "fl \<Rightarrow> fl" where
  "fneg (Fin x) = Fin (- x)"
| "fneg PInf = MInf"
| "fneg MInf = PInf"
| "fneg NaN = NaN"

fun fadd :: "fl \<Rightarrow> fl \<Rightarrow> fl" where
  "fadd NaN b = NaN"
| "fadd a NaN = NaN"
| "fadd (Fin x) (Fin y) = Fin (x + y)"
| "fadd PInf MInf = NaN"
| "fadd MInf PInf = NaN"
| "fadd PInf b = PInf"
| "fadd a PInf = PInf"
| "fadd MInf b = MInf"
| "fadd a MInf = MInf"

definition fsub :: "fl \<Rightarrow> fl \<Rightarrow> fl" where
  "fsub a b = fadd a (fneg b)"

text \<open>The sign of a float that is not NaN.\<close>

fun fsgn :: "fl \<Rightarrow> int" where
  "fsgn (Fin x) = (if x = 0 then 0 else if 0 < x then 1 else - 1)"
| "fsgn PInf = 1"
| "fsgn MInf = - 1"
| "fsgn NaN = 0"

definition of_sign :: "int \<Rightarrow> fl" where
  "of_sign s = (if s = 0 then NaN else if 0 < s then PInf else MInf)"

fun fmul :: "fl \<Rightarrow> fl \<Rightarrow> fl" where
  "fmul NaN b = NaN"
| "fmul a NaN = NaN"
| "fmul (Fin x) (Fin y) = Fin (x * y)"
| "fmul a b = of_sign (fsgn a * fsgn b)"

fun fdiv :: "fl \<Rightarrow> fl \<Rightarrow> fl" where
  "fdiv NaN b = NaN"
| "fdiv a NaN = NaN"
| "fdiv (Fin x) (Fin y) =
     (if y \<noteq> 0 then Fin (x / y)
      else if 0 < x then PInf else if x < 0 then MInf else NaN)"
| "fdiv (Fin x) b = Fin 0"
| "fdiv a (Fin y) = (if 0 \<le> y then a else fneg a)"
| "fdiv a b = NaN"

fun fabs :: "fl \<Rightarrow> fl" where
  "fabs (Fin x) = Fin \<bar>x\<bar>"
| "fabs PInf = PInf"
| "fabs MInf = PInf"
| "fabs NaN = NaN"

fun flt :: "fl \<Rightarrow> fl \<Rightarrow> bool" where
  "flt NaN b = False"
| "flt a NaN = False"
| "flt (Fin x) (Fin y) = (x < y)"
| "flt PInf b = False"
| "flt a MInf = False"
| "flt a b = True"

fun fle :: "fl \<Rightarrow> fl \<Rightarrow> bool" where
  "fle NaN b = False"
| "fle a NaN = False"
| "fle (Fin x) (Fin y) = (x \<le> y)"
| "fle MInf b = True"
| "fle a PInf = True"
| "fle a b = False"

definition fgt :: "fl \<Rightarrow> fl \<Rightarrow> bool" where
  "fgt a b = flt b a"

definition fge :: "fl \<Rightarrow> fl \<Rightarrow> bool" where
  "fge a b = fle b a"

text \<open>Python's \<open>min(a, b)\<close> keeps \<open>a\<close> unless \<open>b < a\<close>; with \<open>b\<close> NaN it keeps \<open>a\<close>.\<close>

definition py_min :: "fl \<Rightarrow> fl \<Rightarrow> fl" where
  "py_min a b = (if flt b a then b else a)"

section \<open>Candle windows as data frames\<close>

text \<open>
  A row of the frame is one candle; its numbers are finite (\<open>pd.to_numeric\<close> of what the
  exchange sent). The column \<open>open\<close> of the source is the field \<open>open_price\<close>. A frame may
  lack the \<open>timestamp\<close> column (the source tests for it); the timestamps of its rows are
  then not read.
\<close>

record candle =
  timestamp :: int
  open_price :: real
  high :: real
  low :: real
  close :: real
  volume :: real

record dataframe =
  has_timestamp :: bool
  rows :: "candle list"

text \<open>
  \<open>df.sort_values("timestamp", ascending=...)\<close> behind the test for the column. The order
  pandas gives to rows of equal timestamp is not specified; here ascending order is the
  stable one and descending order its reverse. With distinct timestamps there is only
  one sorted order.
\<close>

definition sort_by_timestamp :: "bool \<Rightarrow> dataframe \<Rightarrow> dataframe" where
  "sort_by_timestamp ascending df =
     (if has_timestamp df
      then df\<lparr>rows := (if ascending then sort_key timestamp (rows df)
                         else rev (sort_key timestamp (rows df)))\<rparr>
      else df)"

text \<open>\<open>series.iloc[-1]\<close> and \<open>series.iloc[0]\<close> raise IndexError on an empty series.\<close>

definition iloc_last :: "'a list \<Rightarrow> exn + 'a" where
  "iloc_last xs = (if xs = [] then Inl IndexError else Inr (last xs))"

definition iloc_first :: "'a list \<Rightarrow> exn + 'a" where
  "iloc_first xs = (case xs of [] \<Rightarrow> Inl IndexError | x # _ \<Rightarrow> Inr x)"

text \<open>
  \<open>series.rolling(window=n).f()\<close> on a column of finite numbers: NaN until n rows are
  there (\<open>min_periods\<close> is the window), then f of the last n rows. A window of 0 rows
  gives NaN.
\<close>

definition rolling :: "(real list \<Rightarrow> real) \<Rightarrow> nat \<Rightarrow> real list \<Rightarrow> fl list" where
  "rolling f n xs =
     map (\<lambda>i. if n = 0 \<or> i + 1 < n then NaN else Fin (f (take n (drop (i + 1 - n) xs))))
       [0..<length xs]"

fun list_max :: "real list \<Rightarrow> real" where
  "list_max [] = 0"
| "list_max [x] = x"
| "list_max (x # xs) = max x (list_max xs)"

fun list_min :: "real list \<Rightarrow> real" where
  "list_min [] = 0"
| "list_min [x] = x"
| "list_min (x # xs) = min x (list_min xs)"

definition mean :: "real list \<Rightarrow> real" where
  "mean xs = sum_list xs / real (length xs)"

text \<open>\<open>series.shift(n)\<close>: n NaN in front, the last n values dropped.\<close>

definition shift :: "nat \<Rightarrow> real list \<Rightarrow> fl list" where
  "shift n xs = replicate (min n (length xs)) NaN @ map Fin (take (length xs - n) xs)"

text \<open>Elementwise operations on two series of the same index.\<close>

definition series2 :: "('a \<Rightarrow> 'b \<Rightarrow> 'c) \<Rightarrow> 'a list \<Rightarrow> 'b list \<Rightarrow> 'c list" where
  "series2 f xs ys = map (\<lambda>(x, y). f x y) (zip xs ys)"

section \<open>The strategy base class (BaseStrategy)\<close>

text \<open>
  The decorator \<open>handle_errors\<close>: every exception of the wrapped call is caught and
  logged, and the wrapper returns None. \<open>log_execution_time\<close> logs and re-raises.
\<close>

definition handle_errors :: "exn + 'a \<Rightarrow> exn + 'a option" where
  "handle_errors r = (case r of Inl e \<Rightarrow> Inr None | Inr v \<Rightarrow> Inr (Some v))"

definition log_execution_time :: "exn + 'a \<Rightarrow> exn + 'a" where
  "log_execution_time r = r"

text \<open>
  The dict that \<open>generate_signals\<close> returns: \<open>analyze\<close> reads its keys \<open>signal\<close> and
  \<open>strength\<close> with a default, so each may be absent. A concrete strategy extends the
  record with its own keys.
\<close>

record signals =
  signal :: "string option"
  strength :: "fl option"

text \<open>
  A strategy: the class attributes and the abstract methods, which may return a value,
  return None or raise.
\<close>

record ('i, 's) strategy =
  name :: string
  timeframe :: string
  get_min_required_candles :: nat
  calculate_indicators :: "dataframe \<Rightarrow> exn + 'i option"
  generate_signals :: "dataframe \<Rightarrow> 'i option \<Rightarrow> exn + 's signals_scheme option"

text \<open>
  The three per-symbol dicts of the object. A key may hold Python's None. The list
  \<open>invocations\<close> is not in the source: it records each call of an abstract method.
\<close>

datatype invocation = CalculateIndicators | GenerateSignals

record ('i, 's) cache =
  indicators :: "string \<rightharpoonup> 'i option"
  cached_signals :: "string \<rightharpoonup> 's signals_scheme option"
  last_update_time :: "string \<rightharpoonup> real"
  invocations :: "invocation list"

text \<open>The value of the key \<open>indicators\<close> of a result: the empty dict or what was computed.\<close>

datatype 'i indicators_entry = EmptyDict | Computed "'i option"

record 'i analysis =
  result_signal :: string
  result_strength :: fl
  result_indicators :: "'i indicators_entry"
  result_timestamp :: real
  result_symbol :: string
  result_timeframe :: string
  result_strategy :: string
  result_error :: "string option"

text \<open>Decimal digits of a number, for the f-string of the message.\<close>

fun str_nat :: "nat \<Rightarrow> string" where
  "str_nat n =
     (if n < 10 then [char_of (48 + n)] else str_nat (n div 10) @ [char_of (48 + n mod 10)])"

definition too_few_data :: "nat \<Rightarrow> nat \<Rightarrow> string" where
  "too_few_data present need =
     ''Zu wenig Daten: '' @ str_nat present @ '' vorhanden, '' @ str_nat need @ '' erforderlich''"

text \<open>
  The first argument of \<open>analyze\<close> is annotated as a data frame, and one caller in the
  class passes a string.
\<close>

datatype pyobj = DataFrame dataframe | Str string

text \<open>
  The body of \<open>analyze\<close>, lines 77-140. The clock reading is an argument. The object is
  returned with the result, also when the body raises: what was written stays written.
\<close>

definition analyze_body ::
  "('i, 's) strategy \<Rightarrow> real \<Rightarrow> ('i, 's) cache \<Rightarrow> pyobj \<Rightarrow> string \<Rightarrow>
     ('i, 's) cache \<times> (exn + 'i analysis)" where
  "analyze_body self clock st df symbol =
     (case df of
        Str s \<Rightarrow> (st, Inl AttributeError)
      | DataFrame d \<Rightarrow>
          if rows d = [] then
            (st, Inr \<lparr>result_signal = ''neutral'', result_strength = Fin 0,
                     result_indicators = EmptyDict, result_timestamp = clock,
                     result_symbol = symbol, result_timeframe = timeframe self,
                     result_strategy = name self, result_error = None\<rparr>)
          else if length (rows d) < get_min_required_candles self then
            (st, Inr \<lparr>result_signal = ''neutral'', result_strength = Fin 0,
                     result_indicators = EmptyDict, result_timestamp = clock,
                     result_symbol = symbol, result_timeframe = timeframe self,
                     result_strategy = name self,
                     result_error = Some (too_few_data (length (rows d))
                                            (get_min_required_candles self))\<rparr>)
          else
            (let d' = sort_by_timestamp False d;
                 st1 = st\<lparr>invocations := invocations st @ [CalculateIndicators]\<rparr>
             in case calculate_indicators self d' of
                  Inl e \<Rightarrow> (st1, Inl e)
                | Inr ind \<Rightarrow>
                    (let st2 = st1\<lparr>indicators := (indicators st1)(symbol \<mapsto> ind),
                                   invocations := invocations st1 @ [GenerateSignals]\<rparr>
                     in case generate_signals self d' ind of
                          Inl e \<Rightarrow> (st2, Inl e)
                        | Inr sg \<Rightarrow>
                            (let st3 = st2\<lparr>cached_signals := (cached_signals st2)(symbol \<mapsto> sg),
                                           last_update_time :=
                                             (last_update_time st2)(symbol \<mapsto> clock)\<rparr>
                             in case sg of
                                  None \<Rightarrow> (st3, Inl AttributeError)
                                | Some s \<Rightarrow>
                                    (st3, Inr \<lparr>result_signal =
                                                 (case signal s of None \<Rightarrow> ''neutral''
                                                  | Some k \<Rightarrow> k),
                                               result_strength =
                                                 (case strength s of None \<Rightarrow> Fin 0
                                                  | Some x \<Rightarrow> x),
                                               result_indicators = Computed ind,
                                               result_timestamp = clock,
                                               result_symbol = symbol,
                                               result_timeframe = timeframe self,
                                               result_strategy = name self,
                                               result_error = None\<rparr>)))))"

text \<open>\<open>analyze\<close> as decorated: \<open>@handle_errors\<close> around \<open>@log_execution_time()\<close>.\<close>

definition analyze ::
  "('i, 's) strategy \<Rightarrow> real \<Rightarrow> ('i, 's) cache \<Rightarrow> pyobj \<Rightarrow> string \<Rightarrow>
     ('i, 's) cache \<times> (exn + 'i analysis option)" where
  "analyze self clock st df symbol =
     (case analyze_body self clock st df symbol of
        (st', r) \<Rightarrow> (st', handle_errors (log_execution_time r)))"

text \<open>\<open>get_cached_signal\<close>, and the read of the indicator cache.\<close>

definition get_cached_signal ::
  "('i, 's) cache \<Rightarrow> string \<Rightarrow> 's signals_scheme option option" where
  "get_cached_signal st symbol = cached_signals st symbol"

subsection \<open>Multi-timeframe confirmation\<close>

text \<open>
  The returned dict, one field per key, None for a key that the dict does not have.
  The entry \<open>indicators\<close> of a detail is left out: it collects the keys rsi, macd,
  ema_short and ema_long of a result of \<open>analyze\<close>, which has none of them.
\<close>

record detail =
  detail_signal :: string
  detail_confirmed :: bool

record confirmation =
  confirmed :: bool
  confidence :: "real option"
  confirmations :: "nat option"
  total_timeframes :: "nat option"
  details :: "(string \<times> detail) list option"
  confirmation_error :: "exn option"

definition intervals :: "string list" where
  "intervals = [''15'', ''60'', ''240'', ''D'']"

text \<open>\<open>xs.index(x)\<close> for an x that is in xs.\<close>

fun index_of :: "'a list \<Rightarrow> 'a \<Rightarrow> nat" where
  "index_of [] x = 0"
| "index_of (y # ys) x = (if x = y then 0 else Suc (index_of ys x))"

definition check_intervals :: "string \<Rightarrow> string list" where
  "check_intervals base_interval =
     (let base_idx = (if base_interval \<in> set intervals
                      then int (index_of intervals base_interval) else - 1)
      in if base_idx \<ge> 0 then drop (nat (base_idx + 1)) intervals else drop 1 intervals)"

text \<open>
  The loop of lines 406-424 over the selected intervals, with the counter and the
  details so far. \<open>self.analyze(symbol, interval)\<close> passes the symbol where the frame is
  expected and the interval where the symbol is. \<open>result.get\<close> on None raises.
\<close>

fun confirm_loop ::
  "('i, 's) strategy \<Rightarrow> real \<Rightarrow> string \<Rightarrow> string \<Rightarrow> string list \<Rightarrow>
   ('i, 's) cache \<Rightarrow> nat \<Rightarrow> (string \<times> detail) list \<Rightarrow>
     ('i, 's) cache \<times> (exn + nat \<times> (string \<times> detail) list)" where
  "confirm_loop self clock symbol signal_type [] st n ds = (st, Inr (n, ds))"
| "confirm_loop self clock symbol signal_type (interval # rest) st n ds =
     (case analyze self clock st (Str symbol) interval of
        (st', Inl e) \<Rightarrow> (st', Inl e)
      | (st', Inr None) \<Rightarrow> (st', Inl AttributeError)
      | (st', Inr (Some result)) \<Rightarrow>
          (let interval_signal = result_signal result;
               is_confirmed = (interval_signal = signal_type \<or> interval_signal = ''neutral'')
           in confirm_loop self clock symbol signal_type rest st'
                (if is_confirmed then n + 1 else n)
                (AList.update interval
                   \<lparr>detail_signal = interval_signal, detail_confirmed = is_confirmed\<rparr> ds)))"

definition check_multi_timeframe_confirmation ::
  "('i, 's) strategy \<Rightarrow> real \<Rightarrow> ('i, 's) cache \<Rightarrow> string \<Rightarrow> string \<Rightarrow> string \<Rightarrow>
     ('i, 's) cache \<times> confirmation" where
  "check_multi_timeframe_confirmation self clock st symbol base_interval signal_type =
     (let selected = check_intervals base_interval
      in if selected = [] then
           (st, \<lparr>confirmed = True, confidence = None, confirmations = Some 0,
                 total_timeframes = None, details = Some [], confirmation_error = None\<rparr>)
         else
           (case confirm_loop self clock symbol signal_type selected st 0 [] of
              (st', Inl e) \<Rightarrow>
                (st', \<lparr>confirmed = False, confidence = None, confirmations = None,
                       total_timeframes = None, details = None,
                       confirmation_error = Some e\<rparr>)
            | (st', Inr (n, ds)) \<Rightarrow>
                (let confirmation_ratio =
                       (if selected \<noteq> [] then real n / real (length selected) else 1)
                 in (st', \<lparr>confirmed = (confirmation_ratio \<ge> 1 / 2),
                           confidence = Some confirmation_ratio,
                           confirmations = Some n,
                           total_timeframes = Some (length selected),
                           details = Some ds, confirmation_error = None\<rparr>))))"

subsection \<open>Small strategies and windows for examples\<close>

text \<open>
  Two subclasses with number-valued indicators: in the first the indicator computation
  raises, in the second the signal generation raises after indicators were computed.
\<close>

definition raising_strategy :: "(nat, unit) strategy" where
  "raising_strategy =
     \<lparr>name = ''Raising'', timeframe = ''15m'', get_min_required_candles = 2,
      calculate_indicators = (\<lambda>d. Inl ValueError),
      generate_signals = (\<lambda>d i. Inr (Some \<lparr>signal = Some ''buy'', strength = Some (Fin 1)\<rparr>))\<rparr>"

definition half_failing_strategy :: "(nat, unit) strategy" where
  "half_failing_strategy =
     \<lparr>name = ''HalfFailing'', timeframe = ''15m'', get_min_required_candles = 2,
      calculate_indicators = (\<lambda>d. Inr (Some 1)),
      generate_signals = (\<lambda>d i. Inl ValueError)\<rparr>"

definition working_strategy :: "(nat, unit) strategy" where
  "working_strategy =
     \<lparr>name = ''Working'', timeframe = ''15m'', get_min_required_candles = 2,
      calculate_indicators = (\<lambda>d. Inr (Some 1)),
      generate_signals = (\<lambda>d i. Inr (Some \<lparr>signal = Some ''buy'', strength = Some (Fin 1)\<rparr>))\<rparr>"

definition flat_candle :: "int \<Rightarrow> real \<Rightarrow> candle" where
  "flat_candle t p =
     \<lparr>timestamp = t, open_price = p, high = p, low = p, close = p, volume = 1\<rparr>"

definition two_candles :: dataframe where
  "two_candles = \<lparr>has_timestamp = True, rows = [flat_candle 1 10, flat_candle 2 11]\<rparr>"

definition one_candle :: dataframe where
  "one_candle = \<lparr>has_timestamp = True, rows = [flat_candle 1 10]\<rparr>"

definition empty_frame :: dataframe where
  "empty_frame = \<lparr>has_timestamp = True, rows = []\<rparr>"

definition old_signal :: "unit signals_scheme" where
  "old_signal = \<lparr>signal = Some ''sell'', strength = Some (Fin 0)\<rparr>"

text \<open>A cache after an earlier analysis of the symbol X: indicators 0, a sell signal.\<close>

definition old_cache :: "(nat, unit) cache" where
  "old_cache =
     \<lparr>indicators = [''X'' \<mapsto> Some 0], cached_signals = [''X'' \<mapsto> Some old_signal],
      last_update_time = [''X'' \<mapsto> 0], invocations = []\<rparr>"

section \<open>The channel-breakout strategy (DonchianStrategy)\<close>

record donchian =
  period :: nat
  exit_period :: nat
  atr_period :: nat
  atr_multiplier :: real
  volume_threshold :: real
  donchian_timeframe :: string

text \<open>The defaults of \<open>__init__\<close>.\<close>

definition default_donchian :: donchian where
  "default_donchian =
     \<lparr>period = 20, exit_period = 10, atr_period = 14, atr_multiplier = 2,
      volume_threshold = 3 / 2, donchian_timeframe = ''15m''\<rparr>"

definition donchian_min_required_candles :: "donchian \<Rightarrow> nat" where
  "donchian_min_required_candles p = max (period p) (atr_period p) + 10"

text \<open>
  The true range, lines 84-87: the row maximum of high - low, |high - previous close|
  and |low - previous close|. \<open>max(axis=1)\<close> skips NaN, and the first row has no
  previous close (\<open>shift(1)\<close>), so its true range is high - low.
\<close>

fun true_range_from :: "real option \<Rightarrow> candle list \<Rightarrow> real list" where
  "true_range_from prev [] = []"
| "true_range_from prev (c # cs) =
     (case prev of
        None \<Rightarrow> high c - low c
      | Some pc \<Rightarrow> max (high c - low c) (max \<bar>high c - pc\<bar> \<bar>low c - pc\<bar>))
     # true_range_from (Some (close c)) cs"

definition true_range :: "candle list \<Rightarrow> real list" where
  "true_range rs = true_range_from None rs"

text \<open>
  The dict of indicators. The keys \<open>close\<close> and \<open>timestamp\<close> are the fields
  \<open>last_close\<close> and \<open>last_timestamp\<close>; the timestamp is None without the column.
\<close>

record donchian_indicators =
  highest_high :: fl
  lowest_low :: fl
  middle_line :: fl
  exit_high :: fl
  exit_low :: fl
  atr :: fl
  volume_ratio :: fl
  trend_up :: bool
  volatility :: fl
  stop_loss_long :: fl
  stop_loss_short :: fl
  take_profit_long :: fl
  take_profit_short :: fl
  roc :: fl
  highest_high_series :: "fl list"
  lowest_low_series :: "fl list"
  middle_line_series :: "fl list"
  atr_series :: "fl list"
  last_close :: real
  last_timestamp :: "int option"

text \<open>
  The body of \<open>calculate_indicators\<close>. The series operations do not raise; the first
  \<open>.iloc[-1]\<close> raises IndexError on a frame without rows.
\<close>

definition calculate_indicators_body :: "donchian \<Rightarrow> dataframe \<Rightarrow> exn + donchian_indicators" where
  "calculate_indicators_body p df =
     (let rs = rows (sort_by_timestamp True df);
          closes = map (\<lambda>c. Fin (close c)) rs;
          highest_high_s = rolling list_max (period p) (map high rs);
          lowest_low_s = rolling list_min (period p) (map low rs);
          middle_line_s = series2 (\<lambda>h l. fdiv (fadd h l) (Fin 2)) highest_high_s lowest_low_s;
          exit_high_s = rolling list_max (exit_period p) (map high rs);
          exit_low_s = rolling list_min (exit_period p) (map low rs);
          atr_s = rolling mean (atr_period p) (true_range rs);
          avg_volume = rolling mean (period p) (map volume rs);
          volume_ratio_s = series2 fdiv (map (\<lambda>c. Fin (volume c)) rs) avg_volume;
          sma20 = rolling mean 20 (map close rs);
          sma50 = rolling mean 50 (map close rs);
          trend_up_s = series2 fgt sma20 sma50;
          volatility_s = series2 (\<lambda>a c. fmul (fdiv a c) (Fin 100)) atr_s closes;
          stop_loss_long_s =
            series2 (\<lambda>c a. fsub c (fmul a (Fin (atr_multiplier p)))) closes atr_s;
          stop_loss_short_s =
            series2 (\<lambda>c a. fadd c (fmul a (Fin (atr_multiplier p)))) closes atr_s;
          take_profit_long_s =
            series2 (\<lambda>c a. fadd c (fmul (fmul a (Fin (atr_multiplier p))) (Fin (3 / 2))))
              closes atr_s;
          take_profit_short_s =
            series2 (\<lambda>c a. fsub c (fmul (fmul a (Fin (atr_multiplier p))) (Fin (3 / 2))))
              closes atr_s;
          roc_s = series2 (\<lambda>c s. fsub (fdiv c s) (Fin 1)) closes (shift (period p) (map close rs))
      in if rs = [] then Inl IndexError
         else Inr \<lparr>highest_high = last highest_high_s,
                  lowest_low = last lowest_low_s,
                  middle_line = last middle_line_s,
                  exit_high = last exit_high_s,
                  exit_low = last exit_low_s,
                  atr = last atr_s,
                  volume_ratio = last volume_ratio_s,
                  trend_up = last trend_up_s,
                  volatility = last volatility_s,
                  stop_loss_long = last stop_loss_long_s,
                  stop_loss_short = last stop_loss_short_s,
                  take_profit_long = last take_profit_long_s,
                  take_profit_short = last take_profit_short_s,
                  roc = last roc_s,
                  highest_high_series = highest_high_s,
                  lowest_low_series = lowest_low_s,
                  middle_line_series = middle_line_s,
                  atr_series = atr_s,
                  last_close = close (last rs),
                  last_timestamp =
                    (if has_timestamp df then Some (timestamp (last rs)) else None)\<rparr>)"

definition donchian_calculate_indicators ::
  "donchian \<Rightarrow> dataframe \<Rightarrow> exn + donchian_indicators option" where
  "donchian_calculate_indicators p df = handle_errors (calculate_indicators_body p df)"

text \<open>The reason of a signal: the text of the f-string and the numbers it formats.\<close>

datatype reason =
    NoClearSignals
  | BreakoutAbove fl fl
  | BreakoutBelow fl fl
  | BelowShortTermLow fl
  | AboveShortTermHigh fl
  | NearUpperBound fl
  | NearLowerBound fl

text \<open>
  The dict of signal details. The key \<open>price\<close> and the keys that the indicator dict
  also has carry the prefix \<open>at_\<close>. \<open>last_candle\<close> is the newest row.
\<close>

record details = signals +
  reason :: reason
  at_price :: real
  at_highest_high :: fl
  at_lowest_low :: fl
  at_exit_high :: fl
  at_exit_low :: fl
  stop_loss_level :: "fl option"
  take_profit_level :: "fl option"
  at_atr :: fl
  at_volume_ratio :: fl
  at_trend_up :: bool
  risk_reward_ratio :: real
  last_candle :: "candle option"

text \<open>
  A condition \<open>first and (previous_close ...) and ...\<close>: Python evaluates the comparison
  with \<open>previous_close\<close> only when \<open>first\<close> holds, and it raises TypeError when
  \<open>previous_close\<close> is None (a frame of one row).
\<close>

definition and_previous :: "bool \<Rightarrow> real option \<Rightarrow> (real \<Rightarrow> bool) \<Rightarrow> exn + bool" where
  "and_previous first previous_close rest =
     (if first
      then (case previous_close of None \<Rightarrow> Inl TypeError | Some pc \<Rightarrow> Inr (rest pc))
      else Inr False)"

definition buy_strength :: "donchian_indicators \<Rightarrow> fl" where
  "buy_strength ind =
     py_min (Fin (9 / 10))
       (fadd (fadd (fadd (Fin (1 / 2)) (fdiv (volume_ratio ind) (Fin 10)))
                   (if fgt (roc ind) (Fin 0) then fmul (roc ind) (Fin 10) else Fin 0))
             (fdiv (volatility ind) (Fin 100)))"

definition sell_strength :: "donchian_indicators \<Rightarrow> fl" where
  "sell_strength ind =
     py_min (Fin (9 / 10))
       (fadd (fadd (fadd (Fin (1 / 2)) (fdiv (volume_ratio ind) (Fin 10)))
                   (if flt (roc ind) (Fin 0) then fmul (fabs (roc ind)) (Fin 10) else Fin 0))
             (fdiv (volatility ind) (Fin 100)))"

text \<open>The chain of lines 172-227: signal, strength and reason.\<close>

definition decide ::
  "donchian \<Rightarrow> real \<Rightarrow> real option \<Rightarrow> donchian_indicators \<Rightarrow> exn + string \<times> fl \<times> reason" where
  "decide p current_close previous_close ind =
     (case and_previous (fgt (Fin current_close) (highest_high ind)) previous_close
             (\<lambda>pc. fle (Fin pc) (highest_high ind) \<and>
                   fgt (volume_ratio ind) (Fin (volume_threshold p)) \<and> trend_up ind) of
        Inl e \<Rightarrow> Inl e
      | Inr True \<Rightarrow>
          Inr (''buy'', buy_strength ind, BreakoutAbove (highest_high ind) (volume_ratio ind))
      | Inr False \<Rightarrow>
     (case and_previous (flt (Fin current_close) (lowest_low ind)) previous_close
             (\<lambda>pc. fge (Fin pc) (lowest_low ind) \<and>
                   fgt (volume_ratio ind) (Fin (volume_threshold p)) \<and> \<not> trend_up ind) of
        Inl e \<Rightarrow> Inl e
      | Inr True \<Rightarrow>
          Inr (''sell'', sell_strength ind, BreakoutBelow (lowest_low ind) (volume_ratio ind))
      | Inr False \<Rightarrow>
     (case and_previous (flt (Fin current_close) (exit_low ind)) previous_close
             (\<lambda>pc. fge (Fin pc) (exit_low ind)) of
        Inl e \<Rightarrow> Inl e
      | Inr True \<Rightarrow> Inr (''exit_long'', Fin (7 / 10), BelowShortTermLow (exit_low ind))
      | Inr False \<Rightarrow>
     (case and_previous (fgt (Fin current_close) (exit_high ind)) previous_close
             (\<lambda>pc. fle (Fin pc) (exit_high ind)) of
        Inl e \<Rightarrow> Inl e
      | Inr True \<Rightarrow> Inr (''exit_short'', Fin (7 / 10), AboveShortTermHigh (exit_high ind))
      | Inr False \<Rightarrow>
          if fgt (Fin current_close) (fsub (highest_high ind) (fmul (atr ind) (Fin (1 / 2)))) \<and>
             flt (Fin current_close) (highest_high ind)
          then Inr (''buy_weak'', Fin (3 / 10), NearUpperBound (highest_high ind))
          else if flt (Fin current_close) (fadd (lowest_low ind) (fmul (atr ind) (Fin (1 / 2)))) \<and>
                  fgt (Fin current_close) (lowest_low ind)
          then Inr (''sell_weak'', Fin (3 / 10), NearLowerBound (lowest_low ind))
          else Inr (''neutral'', Fin 0, NoClearSignals)))))"

text \<open>
  The body of \<open>generate_signals\<close>. \<open>df["close"].iloc[0]\<close> raises IndexError on a frame
  without rows; \<open>indicators["highest_high"]\<close> raises TypeError when the indicators are
  None.
\<close>

definition generate_signals_body ::
  "donchian \<Rightarrow> dataframe \<Rightarrow> donchian_indicators option \<Rightarrow> exn + details" where
  "generate_signals_body p df inds =
     (let rs = rows (sort_by_timestamp False df)
      in case iloc_first rs of
           Inl e \<Rightarrow> Inl e
         | Inr newest \<Rightarrow>
             (let current_close = close newest;
                  previous_close = (if length rs > 1 then Some (close (rs ! 1)) else None)
              in case inds of
                   None \<Rightarrow> Inl TypeError
                 | Some ind \<Rightarrow>
                     (case decide p current_close previous_close ind of
                        Inl e \<Rightarrow> Inl e
                      | Inr (sig, str, why) \<Rightarrow>
                          Inr \<lparr>signal = Some sig, strength = Some str, reason = why,
                               at_price = current_close,
                               at_highest_high = highest_high ind,
                               at_lowest_low = lowest_low ind,
                               at_exit_high = exit_high ind,
                               at_exit_low = exit_low ind,
                               stop_loss_level =
                                 (if sig = ''buy'' then Some (stop_loss_long ind)
                                  else if sig = ''sell'' then Some (stop_loss_short ind)
                                  else None),
                               take_profit_level =
                                 (if sig = ''buy'' then Some (take_profit_long ind)
                                  else if sig = ''sell'' then Some (take_profit_short ind)
                                  else None),
                               at_atr = atr ind, at_volume_ratio = volume_ratio ind,
                               at_trend_up = trend_up ind, risk_reward_ratio = 3 / 2,
                               last_candle = Some newest\<rparr>)))"

definition donchian_generate_signals ::
  "donchian \<Rightarrow> dataframe \<Rightarrow> donchian_indicators option \<Rightarrow> exn + details option" where
  "donchian_generate_signals p df inds =
     handle_errors (generate_signals_body p df inds)"

text \<open>The subclass as a strategy object.\<close>

definition DonchianStrategy :: "donchian \<Rightarrow> (donchian_indicators, unit details_ext) strategy" where
  "DonchianStrategy p =
     \<lparr>name = ''DonchianChannel'', timeframe = donchian_timeframe p,
      get_min_required_candles = donchian_min_required_candles p,
      calculate_indicators = donchian_calculate_indicators p,
      generate_signals = donchian_generate_signals p\<rparr>"

text \<open>
  Lines 112 and 118 of \<open>analyze\<close> for this strategy: the indicators of a window, then
  the signals of the same window with these indicators.
\<close>

definition donchian_pipeline :: "donchian \<Rightarrow> dataframe \<Rightarrow> exn + details option" where
  "donchian_pipeline p df =
     (case donchian_calculate_indicators p df of
        Inl e \<Rightarrow> Inl e
      | Inr ind \<Rightarrow> donchian_generate_signals p df ind)"

text \<open>A float that is a finite number not below zero, plus infinity or NaN.\<close>

fun not_negative :: "fl \<Rightarrow> bool" where
  "not_negative (Fin x) = (0 \<le> x)"
| "not_negative MInf = False"
| "not_negative a = True"

subsection \<open>Windows for examples\<close>

text \<open>Thirty flat candles with rising prices 10, 11, ...\<close>

definition thirty_candles :: dataframe where
  "thirty_candles =
     \<lparr>has_timestamp = True, rows = map (\<lambda>i. flat_candle (int i) (10 + real i)) [0..<30]\<rparr>"

text \<open>
  The breakout scenario: bars 1 to 24 rise by 1 each and close at their high, bar 24
  closing at 100, the high of the 20 bars before bar 25; bar 25 closes at 101, which is
  1 percent above; its volume 19 is twice the mean volume of the last 20 bars.
\<close>

definition rising_bar :: "nat \<Rightarrow> candle" where
  "rising_bar i =
     \<lparr>timestamp = int i, open_price = 75 + real i, high = 76 + real i, low = 75 + real i,
      close = 76 + real i, volume = 9\<rparr>"

definition breakout_bar :: candle where
  "breakout_bar =
     \<lparr>timestamp = 25, open_price = 100, high = 101, low = 100, close = 101, volume = 19\<rparr>"

definition breakout_window :: dataframe where
  "breakout_window =
     \<lparr>has_timestamp = True,
      rows =
        [rising_bar 1, rising_bar 2, rising_bar 3, rising_bar 4, rising_bar 5, rising_bar 6,
         rising_bar 7, rising_bar 8, rising_bar 9, rising_bar 10, rising_bar 11, rising_bar 12,
         rising_bar 13, rising_bar 14, rising_bar 15, rising_bar 16, rising_bar 17,
         rising_bar 18, rising_bar 19, rising_bar 20, rising_bar 21, rising_bar 22,
         rising_bar 23, rising_bar 24, breakout_bar]\<rparr>"

text \<open>The signal of what the pipeline returns, None when it returns no dict.\<close>

definition kind_of :: "exn + details option \<Rightarrow> string option" where
  "kind_of r = (case r of Inr (Some d) \<Rightarrow> signal d | _ \<Rightarrow> None)"

text \<open>
  A frame without the timestamp column: thirty flat bars, the first at price 1, the
  others at 10, all of volume 1 but the last, of volume 10. (The timestamps of the rows
  are not read.)
\<close>

definition bar_at :: "real \<Rightarrow> real \<Rightarrow> candle" where
  "bar_at p v = \<lparr>timestamp = 0, open_price = p, high = p, low = p, close = p, volume = v\<rparr>"

definition headless_window :: dataframe where
  "headless_window =
     \<lparr>has_timestamp = False,
      rows =
        [bar_at 1 1, bar_at 10 1, bar_at 10 1, bar_at 10 1, bar_at 10 1, bar_at 10 1,
         bar_at 10 1, bar_at 10 1, bar_at 10 1, bar_at 10 1, bar_at 10 1, bar_at 10 1,
         bar_at 10 1, bar_at 10 1, bar_at 10 1, bar_at 10 1, bar_at 10 1, bar_at 10 1,
         bar_at 10 1, bar_at 10 1, bar_at 10 1, bar_at 10 1, bar_at 10 1, bar_at 10 1,
         bar_at 10 1, bar_at 10 1, bar_at 10 1, bar_at 10 1, bar_at 10 1, bar_at 10 10]\<rparr>"

text \<open>
  Thirty bars in time order: bars 1 to 29 rise by 1 each, bar 29 closing at 105; bar 30
  closes at its high 106, above every earlier high.
\<close>

definition late_breakout_bar :: candle where
  "late_breakout_bar =
     \<lparr>timestamp = 30, open_price = 105, high = 106, low = 105, close = 106, volume = 19\<rparr>"

definition thirty_rising :: dataframe where
  "thirty_rising =
     \<lparr>has_timestamp = True,
      rows =
        [rising_bar 1, rising_bar 2, rising_bar 3, rising_bar 4, rising_bar 5,
         rising_bar 6, rising_bar 7, rising_bar 8, rising_bar 9, rising_bar 10,
         rising_bar 11, rising_bar 12, rising_bar 13, rising_bar 14, rising_bar 15,
         rising_bar 16, rising_bar 17, rising_bar 18, rising_bar 19, rising_bar 20,
         rising_bar 21, rising_bar 22, rising_bar 23, rising_bar 24, rising_bar 25,
         rising_bar 26, rising_bar 27, rising_bar 28, rising_bar 29, late_breakout_bar]\<rparr>"

section \<open>Position sizing: results\<close>

lemma py_round_of_int: "py_round (of_int k) = k"
  by (simp add: py_round_def)

lemma py_round_n_zero: "py_round_n x 0 = of_int (py_round x)"
  by (simp add: py_round_n_def)

lemma round_for_price_decimals:
  "round_for_price price s = py_round_n s (size_decimals price)"
  by (simp add: round_for_price_def size_decimals_def py_round_n_zero)

lemma size_decimals_antimono: "p \<le> q \<Longrightarrow> size_decimals q \<le> size_decimals p"
  by (simp add: size_decimals_def)

lemma cap_position_eq:
  "rpu \<noteq> 0 \<Longrightarrow>
   cap_position s rpu acc pct =
     Inr (case acc of None \<Rightarrow> s | Some a \<Rightarrow> min s (a * pct / 100 / rpu))"
  by (auto simp: cap_position_def py_div_def max_risk_amount_def min_def split: option.splits)

lemma risk_percent_of_returns: "\<exists>rp. risk_percent_of actual acc = Inr rp"
  by (auto simp: risk_percent_of_def py_div_def split: option.splits)

lemma capped_size_eq:
  "price \<noteq> stop \<Longrightarrow>
   (case py_div risk \<bar>price - stop\<bar> of
      Inl e \<Rightarrow> Inl e
    | Inr s \<Rightarrow> cap_position s \<bar>price - stop\<bar> acc pct)
   = Inr (capped_size price stop risk acc pct)"
  by (simp add: py_div_def cap_position_eq capped_size_def split: option.splits)

lemma calculate_position_size_unfold:
  assumes "price \<noteq> stop"
  shows "calculate_position_size price stop risk acc pct =
     (let s = round_for_price price (capped_size price stop risk acc pct)
      in if s \<le> 0 then Inr (rejected ''Berechnete Positionsgroesse ist zu klein'')
         else (case risk_percent_of (s * \<bar>price - stop\<bar>) acc of
                 Inl e \<Rightarrow> Inl e
               | Inr rp \<Rightarrow>
                   Inr \<lparr>position_size = s, error = None,
                        risk_per_unit = Some \<bar>price - stop\<bar>,
                        actual_risk_amount = Some (s * \<bar>price - stop\<bar>),
                        risk_percent = Some rp, entry_price = Some price,
                        stop_loss = Some stop\<rparr>))"
proof -
  have nz: "\<bar>price - stop\<bar> \<noteq> 0" "\<not> \<bar>price - stop\<bar> \<le> 0"
    using assms by auto
  have c: "cap_position (risk / \<bar>price - stop\<bar>) \<bar>price - stop\<bar> acc pct
           = Inr (capped_size price stop risk acc pct)"
    using nz by (simp add: cap_position_eq capped_size_def split: option.splits)
  show ?thesis
    unfolding calculate_position_size_def Let_def
    using nz by (simp add: py_div_def c)
qed

text \<open>
  Claim C6. Position sizing computes \<open>risk_amount / |price - stop|\<close>, capped by
  \<open>account_size * max_risk_percent / 100 / |price - stop|\<close> when an account size is
  supplied, and rounds the result to a number of decimals that does not grow with the
  price (a result that rounds to zero or below is reported as size 0). At price 100,
  stop 95, risk amount 500 the risk per unit is 5 and the size 100; with account size
  1000 and 1 percent the maximal risk amount is 10 and the size 2.
\<close>

theorem position_sizing_formula:
  "(\<forall>price stop risk acc pct. price \<noteq> stop \<longrightarrow>
      (\<exists>r. calculate_position_size price stop risk acc pct = Inr r \<and>
           position_size r =
             (let s = py_round_n (capped_size price stop risk acc pct) (size_decimals price)
              in if s \<le> 0 then 0 else s)))
   \<and> (\<forall>p q. p \<le> q \<longrightarrow> size_decimals q \<le> size_decimals p)
   \<and> calculate_position_size 100 95 500 None 1 =
       Inr \<lparr>position_size = 100, error = None, risk_per_unit = Some 5,
            actual_risk_amount = Some 500, risk_percent = Some None,
            entry_price = Some 100, stop_loss = Some 95\<rparr>
   \<and> max_risk_amount 1000 1 = 10
   \<and> calculate_position_size 100 95 500 (Some 1000) 1 =
       Inr \<lparr>position_size = 2, error = None, risk_per_unit = Some 5,
            actual_risk_amount = Some 10, risk_percent = Some (Some 1),
            entry_price = Some 100, stop_loss = Some 95\<rparr>"
proof (intro conjI allI impI)
  fix price stop risk :: real and acc pct
  assume ne: "price \<noteq> stop"
  obtain rp where rp: "risk_percent_of
      (round_for_price price (capped_size price stop risk acc pct) * \<bar>price - stop\<bar>) acc
      = Inr rp"
    using risk_percent_of_returns by blast
  show "\<exists>r. calculate_position_size price stop risk acc pct = Inr r \<and>
           position_size r =
             (let s = py_round_n (capped_size price stop risk acc pct) (size_decimals price)
              in if s \<le> 0 then 0 else s)"
    by (simp add: calculate_position_size_unfold [OF ne] Let_def rp rejected_def
        round_for_price_decimals [symmetric])
next
  fix p q :: real
  assume "p \<le> q"
  then show "size_decimals q \<le> size_decimals p"
    by (rule size_decimals_antimono)
next
  have ne: "(100::real) \<noteq> 95" by simp
  have c: "capped_size 100 95 500 None 1 = 100"
    by (simp add: capped_size_def)
  have r: "round_for_price 100 100 = 100"
    by (simp add: round_for_price_def py_round_n_def py_round_def)
  show "calculate_position_size 100 95 500 None 1 =
       Inr \<lparr>position_size = 100, error = None, risk_per_unit = Some 5,
            actual_risk_amount = Some 500, risk_percent = Some None,
            entry_price = Some 100, stop_loss = Some 95\<rparr>"
    by (simp add: calculate_position_size_unfold [OF ne] c r risk_percent_of_def)
next
  show "max_risk_amount 1000 1 = 10"
    by (simp add: max_risk_amount_def)
next
  have ne: "(100::real) \<noteq> 95" by simp
  have c: "capped_size 100 95 500 (Some 1000) 1 = 2"
    by (simp add: capped_size_def)
  have r: "round_for_price 100 2 = 2"
    by (simp add: round_for_price_def py_round_n_def py_round_def)
  show "calculate_position_size 100 95 500 (Some 1000) 1 =
       Inr \<lparr>position_size = 2, error = None, risk_per_unit = Some 5,
            actual_risk_amount = Some 10, risk_percent = Some (Some 1),
            entry_price = Some 100, stop_loss = Some 95\<rparr>"
    by (simp add: calculate_position_size_unfold [OF ne] c r risk_percent_of_def py_div_def)
qed

theorem position_sizing_formula_witness:
  "(1 / 2 :: real) \<noteq> 2 / 5 \<and>
   (\<exists>r. calculate_position_size (1 / 2) (2 / 5) 1 None 1 = Inr r \<and> position_size r = 10) \<and>
   (5 :: real) \<le> 2000 \<and> size_decimals 2000 \<le> size_decimals 5"
proof -
  have ne: "(1 / 2 :: real) \<noteq> 2 / 5" by simp
  have le: "(5 :: real) \<le> 2000" by simp
  have v: "py_round_n (capped_size (1 / 2) (2 / 5) 1 None 1) (size_decimals (1 / 2)) = 10"
    by (simp add: capped_size_def size_decimals_def py_round_n_def py_round_def)
  from position_sizing_formula
  have a: "\<exists>r. calculate_position_size (1 / 2) (2 / 5) 1 None 1 = Inr r \<and>
           position_size r =
             (let s = py_round_n (capped_size (1 / 2) (2 / 5) 1 None 1) (size_decimals (1 / 2))
              in if s \<le> 0 then 0 else s)"
    and b: "size_decimals 2000 \<le> size_decimals 5"
    using ne le by blast+
  from a have "\<exists>r. calculate_position_size (1 / 2) (2 / 5) 1 None 1 = Inr r \<and>
      position_size r = 10"
    by (simp add: v)
  with ne le b show ?thesis by simp
qed

text \<open>
  Claim C7. When \<open>|price - stop|\<close> is zero, and when the computed size rounds to zero or
  below, position sizing returns a result with position size 0 and an explicit reason
  string; and on every input it returns a result rather than raising.
\<close>

theorem sizing_error_is_a_value:
  "(\<forall>price stop risk acc pct. \<bar>price - stop\<bar> = 0 \<longrightarrow>
      (\<exists>r. calculate_position_size price stop risk acc pct = Inr r \<and> position_size r = 0 \<and>
           error r = Some ''Stop-Loss ist zu nah am Eintrittspreis''))
   \<and> (\<forall>price stop risk acc pct.
        \<bar>price - stop\<bar> \<noteq> 0 \<and>
        round_for_price price (capped_size price stop risk acc pct) \<le> 0 \<longrightarrow>
      (\<exists>r. calculate_position_size price stop risk acc pct = Inr r \<and> position_size r = 0 \<and>
           error r = Some ''Berechnete Positionsgroesse ist zu klein''))
   \<and> (\<forall>price stop risk acc pct.
        \<exists>r. calculate_position_size price stop risk acc pct = Inr r)"
proof (intro conjI allI impI)
  fix price stop risk :: real and acc pct
  assume "\<bar>price - stop\<bar> = 0"
  then show "\<exists>r. calculate_position_size price stop risk acc pct = Inr r \<and>
      position_size r = 0 \<and> error r = Some ''Stop-Loss ist zu nah am Eintrittspreis''"
    by (simp add: calculate_position_size_def rejected_def)
next
  fix price stop risk :: real and acc pct
  assume h: "\<bar>price - stop\<bar> \<noteq> 0 \<and>
        round_for_price price (capped_size price stop risk acc pct) \<le> 0"
  then have ne: "price \<noteq> stop" by auto
  from h show "\<exists>r. calculate_position_size price stop risk acc pct = Inr r \<and>
      position_size r = 0 \<and> error r = Some ''Berechnete Positionsgroesse ist zu klein''"
    by (simp add: calculate_position_size_unfold [OF ne] rejected_def)
next
  fix price stop risk :: real and acc pct
  show "\<exists>r. calculate_position_size price stop risk acc pct = Inr r"
  proof (cases "price = stop")
    case True
    then show ?thesis by (simp add: calculate_position_size_def)
  next
    case False
    obtain rp where rp: "risk_percent_of
        (round_for_price price (capped_size price stop risk acc pct) * \<bar>price - stop\<bar>) acc
        = Inr rp"
      using risk_percent_of_returns by blast
    show ?thesis
      by (simp add: calculate_position_size_unfold [OF False] Let_def rp)
  qed
qed

theorem sizing_error_is_a_value_witness:
  "\<bar>(100::real) - 100\<bar> = 0 \<and>
   (\<exists>r. calculate_position_size 100 100 500 None 1 = Inr r \<and> position_size r = 0 \<and>
        error r = Some ''Stop-Loss ist zu nah am Eintrittspreis'') \<and>
   \<bar>(2000::real) - 1000\<bar> \<noteq> 0 \<and>
   round_for_price 2000 (capped_size 2000 1000 400 None 1) \<le> 0 \<and>
   (\<exists>r. calculate_position_size 2000 1000 400 None 1 = Inr r \<and> position_size r = 0 \<and>
        error r = Some ''Berechnete Positionsgroesse ist zu klein'')"
proof -
  have h1: "\<bar>(100::real) - 100\<bar> = 0" by simp
  have c: "capped_size 2000 1000 400 None 1 = 2 / 5"
    by (simp add: capped_size_def)
  have f: "\<lfloor>2 / 5 :: real\<rfloor> = 0" by linarith
  have r: "round_for_price 2000 (2 / 5) = 0"
    by (simp add: round_for_price_def py_round_def f)
  have h2: "\<bar>(2000::real) - 1000\<bar> \<noteq> 0 \<and>
      round_for_price 2000 (capped_size 2000 1000 400 None 1) \<le> 0"
    by (simp add: c r)
  from sizing_error_is_a_value h1
  have a: "\<exists>r. calculate_position_size 100 100 500 None 1 = Inr r \<and> position_size r = 0 \<and>
        error r = Some ''Stop-Loss ist zu nah am Eintrittspreis''"
    by blast
  from sizing_error_is_a_value h2
  have b: "\<exists>r. calculate_position_size 2000 1000 400 None 1 = Inr r \<and> position_size r = 0 \<and>
        error r = Some ''Berechnete Positionsgroesse ist zu klein''"
    by blast
  from h1 h2 a b show ?thesis by blast
qed

section \<open>Connection monitor: results\<close>

lemma sleeps_append: "sleeps (xs @ ys) = sleeps xs @ sleeps ys"
  by (induction xs rule: sleeps.induct) simp_all

lemma connect_calls_append: "connect_calls (xs @ ys) = connect_calls xs + connect_calls ys"
  by (induction xs rule: connect_calls.induct) simp_all

lemma critical_reports_append:
  "critical_reports (xs @ ys) = critical_reports xs + critical_reports ys"
  by (induction xs rule: critical_reports.induct) simp_all

lemma backoff_mono:
  "0 \<le> reconnect_interval ws \<Longrightarrow> j \<le> k \<Longrightarrow> backoff ws j \<le> backoff ws k"
  by (simp add: backoff_def)

lemma sorted_backoff:
  "0 \<le> reconnect_interval ws \<Longrightarrow> sorted (map (backoff ws) [m..<n])"
  by (simp add: sorted_iff_nth_mono backoff_mono)

text \<open>One iteration on a failing tick.\<close>

lemma iteration_failure:
  assumes "failure t" and "0 \<le> reconnect_interval ws"
  shows "iteration ws a t =
     ([Log Warning NotConnected, CallConnect,
       Log Error (ReconnectFailed (Suc a) max_consecutive_failures)]
      @ (if max_consecutive_failures \<le> Suc a
         then [Log Critical (GivingUpAfter max_consecutive_failures)] else [])
      @ [Sleep (backoff ws (Suc a))],
      ws, Suc a, None)"
  using assms
  by (simp add: iteration_def try_body_def failure_def sleep_then_def time_sleep_def
      backoff_def Let_def)

text \<open>With a non-negative interval no iteration raises, whatever the tick.\<close>

lemma iteration_returns:
  assumes "0 \<le> reconnect_interval ws"
  shows "\<exists>acts ws' a'. iteration ws a t = (acts, ws', a', None) \<and>
           reconnect_interval ws' = reconnect_interval ws \<and>
           connect_calls acts = (if connected t then 0 else 1) \<and>
           (\<not> connected t \<and> connect_ok t \<longrightarrow> a' = 0)"
  using assms
  by (simp add: iteration_def try_body_def ping_and_wait_def sleep_then_def time_sleep_def
      Let_def connect_calls_append)

lemma monitor_from_failures:
  assumes "0 \<le> reconnect_interval ws"
  shows "\<forall>t \<in> set ticks. failure t \<Longrightarrow>
     sleeps (trace (monitor_from ws a ticks)) =
       map (backoff ws) [Suc a..<Suc (a + length ticks)] \<and>
     final_attempts (monitor_from ws a ticks) = a + length ticks \<and>
     critical_reports (trace (monitor_from ws a ticks)) =
       length (filter (\<lambda>k. max_consecutive_failures \<le> k) [Suc a..<Suc (a + length ticks)])"
proof (induction ticks arbitrary: a)
  case Nil
  then show ?case by simp
next
  case (Cons t ts)
  then have f: "failure t" and r: "running t" and rest: "\<forall>t \<in> set ts. failure t"
    by (auto simp: failure_def)
  have up: "[Suc a..<Suc (a + length (t # ts))] = Suc a # [Suc (Suc a)..<Suc (Suc a + length ts)]"
    by (simp add: upt_rec)
  from Cons.IH [OF rest, of "Suc a"] show ?case
    unfolding up
    by (simp add: iteration_failure [OF f assms] r Let_def sleeps_append
        critical_reports_append)
qed

lemma monitor_from_keeps_looping:
  "0 \<le> reconnect_interval ws \<Longrightarrow> \<forall>t \<in> set ticks. running t \<Longrightarrow>
     ending (monitor_from ws a ticks) = Looping \<and>
     connect_calls (trace (monitor_from ws a ticks)) =
       length (filter (\<lambda>t. \<not> connected t) ticks)"
proof (induction ticks arbitrary: ws a)
  case Nil
  then show ?case by simp
next
  case (Cons t ts)
  obtain acts ws' a' where it: "iteration ws a t = (acts, ws', a', None)"
    and ri: "reconnect_interval ws' = reconnect_interval ws"
    and cc: "connect_calls acts = (if connected t then 0 else 1)"
    using iteration_returns [OF Cons.prems(1)] by blast
  have "0 \<le> reconnect_interval ws'" using ri Cons.prems(1) by simp
  moreover have "\<forall>t \<in> set ts. running t" using Cons.prems(2) by simp
  ultimately have ih: "ending (monitor_from ws' a' ts) = Looping \<and>
     connect_calls (trace (monitor_from ws' a' ts)) =
       length (filter (\<lambda>t. \<not> connected t) ts)"
    by (rule Cons.IH)
  have "running t" using Cons.prems(2) by simp
  then show ?case
    using ih by (simp add: it Let_def connect_calls_append cc)
qed

lemma success_resets:
  "0 \<le> reconnect_interval ws \<Longrightarrow> \<forall>t \<in> set ticks. running t \<Longrightarrow>
   running s \<Longrightarrow> \<not> connected s \<Longrightarrow> connect_ok s \<Longrightarrow>
     final_attempts (monitor_from ws a (ticks @ [s])) = 0"
proof (induction ticks arbitrary: ws a)
  case Nil
  obtain acts ws' a' where it: "iteration ws a s = (acts, ws', a', None)"
    and z: "\<not> connected s \<and> connect_ok s \<longrightarrow> a' = 0"
    using iteration_returns [OF Nil.prems(1)] by blast
  with Nil show ?case by (simp add: it Let_def)
next
  case (Cons t ts)
  obtain acts ws' a' where it: "iteration ws a t = (acts, ws', a', None)"
    and ri: "reconnect_interval ws' = reconnect_interval ws"
    using iteration_returns [OF Cons.prems(1)] by blast
  have "0 \<le> reconnect_interval ws'" using ri Cons.prems(1) by simp
  moreover have "\<forall>t \<in> set ts. running t" using Cons.prems(2) by simp
  ultimately have "final_attempts (monitor_from ws' a' (ts @ [s])) = 0"
    using Cons.prems(3-5) by (rule Cons.IH)
  moreover have "running t" using Cons.prems(2) by simp
  ultimately show ?case by (simp add: it Let_def)
qed

text \<open>
  Claim C8. In the monitor loop (with a non-negative reconnect interval, 30 by default),
  consecutive reconnect failures 1..N give non-decreasing sleeps: the interval after
  failures 1 to 4, twice the interval from failure 5 on, each of the latter with one
  critical report. The loop never stops retrying while it is running: every tick is
  consumed and every tick without a connection calls \<open>connect\<close>. A successful reconnect
  sets the failure counter to 0.
\<close>

theorem backoff_growth:
  assumes "0 \<le> reconnect_interval ws"
  shows "(\<forall>ticks. (\<forall>t \<in> set ticks. failure t) \<longrightarrow>
           sleeps (trace (monitor_connection ws ticks)) =
             map (\<lambda>k. if 5 \<le> k then reconnect_interval ws * 2 else reconnect_interval ws)
               [1..<Suc (length ticks)] \<and>
           sorted (sleeps (trace (monitor_connection ws ticks))) \<and>
           critical_reports (trace (monitor_connection ws ticks)) = length ticks - 4 \<and>
           final_attempts (monitor_connection ws ticks) = length ticks)
       \<and> (\<forall>ticks. (\<forall>t \<in> set ticks. running t) \<longrightarrow>
           ending (monitor_connection ws ticks) = Looping \<and>
           connect_calls (trace (monitor_connection ws ticks)) =
             length (filter (\<lambda>t. \<not> connected t) ticks))
       \<and> (\<forall>ticks s. (\<forall>t \<in> set ticks. running t) \<and> running s \<and> \<not> connected s \<and> connect_ok s \<longrightarrow>
           final_attempts (monitor_connection ws (ticks @ [s])) = 0)"
proof (intro conjI allI impI)
  fix ticks :: "tick list"
  assume f: "\<forall>t \<in> set ticks. failure t"
  note m = monitor_from_failures [OF assms f, of 0]
  have b: "backoff ws = (\<lambda>k. if 5 \<le> k then reconnect_interval ws * 2 else reconnect_interval ws)"
    by (rule ext) (simp add: backoff_def max_consecutive_failures_def)
  show "sleeps (trace (monitor_connection ws ticks)) =
      map (\<lambda>k. if 5 \<le> k then reconnect_interval ws * 2 else reconnect_interval ws)
        [1..<Suc (length ticks)]"
    using m by (simp add: monitor_connection_def b del: upt_Suc)
  show "sorted (sleeps (trace (monitor_connection ws ticks)))"
    using m sorted_backoff [OF assms] by (simp add: monitor_connection_def del: upt_Suc)
  have "length (filter (\<lambda>k. 5 \<le> k) [Suc 0..<Suc n]) = n - 4" for n
    by (induction n) (auto simp: Suc_diff_le)
  then show "critical_reports (trace (monitor_connection ws ticks)) = length ticks - 4"
    using m by (simp add: monitor_connection_def max_consecutive_failures_def del: upt_Suc)
  show "final_attempts (monitor_connection ws ticks) = length ticks"
    using m by (simp add: monitor_connection_def)
next
  fix ticks :: "tick list"
  assume r: "\<forall>t \<in> set ticks. running t"
  note k = monitor_from_keeps_looping [OF assms r, of 0]
  show "ending (monitor_connection ws ticks) = Looping"
    using k by (simp add: monitor_connection_def)
  show "connect_calls (trace (monitor_connection ws ticks)) =
      length (filter (\<lambda>t. \<not> connected t) ticks)"
    using k by (simp add: monitor_connection_def)
next
  fix ticks :: "tick list" and s :: tick
  assume "(\<forall>t \<in> set ticks. running t) \<and> running s \<and> \<not> connected s \<and> connect_ok s"
  then show "final_attempts (monitor_connection ws (ticks @ [s])) = 0"
    using success_resets [OF assms, of ticks s 0] by (simp add: monitor_connection_def)
qed

theorem backoff_growth_witness:
  "0 \<le> reconnect_interval init_websocket \<and>
   failure down \<and>
   sleeps (trace (monitor_connection init_websocket (replicate 6 down))) =
     [30, 30, 30, 30, 60, 60] \<and>
   critical_reports (trace (monitor_connection init_websocket (replicate 6 down))) = 2 \<and>
   running down \<and>
   ending (monitor_connection init_websocket (replicate 6 down)) = Looping \<and>
   connect_calls (trace (monitor_connection init_websocket (replicate 6 down))) = 6 \<and>
   running up_again \<and> \<not> connected up_again \<and> connect_ok up_again \<and>
   final_attempts (monitor_connection init_websocket (replicate 6 down @ [up_again])) = 0"
proof -
  have h0: "0 \<le> reconnect_interval init_websocket"
    by (simp add: init_websocket_def)
  have h1: "\<forall>t \<in> set (replicate 6 down). failure t"
    by (simp add: failure_def down_def)
  have h2: "\<forall>t \<in> set (replicate 6 down). running t"
    by (simp add: down_def)
  have h4: "failure down \<and> running down"
    by (simp add: failure_def down_def)
  have h3: "running up_again \<and> \<not> connected up_again \<and> connect_ok up_again"
    by (simp add: up_again_def)
  have u: "[1..<Suc (length (replicate 6 down))] = [1, 2, 3, 4, 5, 6]"
    by (simp add: upt_rec)
  have c: "length (filter (\<lambda>t. \<not> connected t) (replicate 6 down)) = 6"
    by (simp add: down_def)
  note t = backoff_growth [OF h0]
  from t h1 have s6: "sleeps (trace (monitor_connection init_websocket (replicate 6 down))) =
      map (\<lambda>k. if 5 \<le> k then reconnect_interval init_websocket * 2
                else reconnect_interval init_websocket)
        [1..<Suc (length (replicate 6 down))]"
    and c6: "critical_reports (trace (monitor_connection init_websocket (replicate 6 down))) =
      length (replicate 6 down) - 4"
    by blast+
  have a: "sleeps (trace (monitor_connection init_websocket (replicate 6 down))) =
      [30, 30, 30, 30, 60, 60]"
    unfolding s6 u by (simp add: init_websocket_def)
  have b: "critical_reports (trace (monitor_connection init_websocket (replicate 6 down))) = 2"
    unfolding c6 by simp
  from t h2 have d: "ending (monitor_connection init_websocket (replicate 6 down)) = Looping"
    and e: "connect_calls (trace (monitor_connection init_websocket (replicate 6 down))) = 6"
    using c by auto
  from t h2 h3 have f:
    "final_attempts (monitor_connection init_websocket (replicate 6 down @ [up_again])) = 0"
    by blast
  from h0 h4 h3 a b d e f show ?thesis by blast
qed

section \<open>The strategy base class: results\<close>

lemma handle_errors_returns: "\<exists>v. handle_errors r = Inr v"
  by (cases r) (simp_all add: handle_errors_def)

lemma handle_errors_raised: "handle_errors (Inl e) = Inr None"
  by (simp add: handle_errors_def)

text \<open>The window is rejected before anything is called or written.\<close>

lemma analyze_short_window:
  assumes "rows d \<noteq> []" and "length (rows d) < get_min_required_candles self"
  shows "analyze self clock st (DataFrame d) symbol =
     (st, Inr (Some \<lparr>result_signal = ''neutral'', result_strength = Fin 0,
                     result_indicators = EmptyDict, result_timestamp = clock,
                     result_symbol = symbol, result_timeframe = timeframe self,
                     result_strategy = name self,
                     result_error = Some (too_few_data (length (rows d))
                                            (get_min_required_candles self))\<rparr>))"
  using assms
  by (simp add: analyze_def analyze_body_def handle_errors_def log_execution_time_def)

text \<open>The body past the two length checks, by what the two methods do.\<close>

lemma analyze_calc_raises:
  assumes "rows d \<noteq> []" and "get_min_required_candles self \<le> length (rows d)"
    and "calculate_indicators self (sort_by_timestamp False d) = Inl e"
  shows "analyze self clock st (DataFrame d) symbol =
     (st\<lparr>invocations := invocations st @ [CalculateIndicators]\<rparr>, Inr None)"
  using assms
  by (simp add: analyze_def analyze_body_def handle_errors_def log_execution_time_def Let_def)

lemma analyze_gen_raises:
  assumes "rows d \<noteq> []" and "get_min_required_candles self \<le> length (rows d)"
    and "calculate_indicators self (sort_by_timestamp False d) = Inr ind"
    and "generate_signals self (sort_by_timestamp False d) ind = Inl e"
  shows "analyze self clock st (DataFrame d) symbol =
     (st\<lparr>indicators := (indicators st)(symbol \<mapsto> ind),
         invocations := invocations st @ [CalculateIndicators, GenerateSignals]\<rparr>,
      Inr None)"
  using assms
  by (simp add: analyze_def analyze_body_def handle_errors_def log_execution_time_def Let_def)

lemma analyze_gen_returns:
  assumes "rows d \<noteq> []" and "get_min_required_candles self \<le> length (rows d)"
    and "calculate_indicators self (sort_by_timestamp False d) = Inr ind"
    and "generate_signals self (sort_by_timestamp False d) ind = Inr sg"
  shows "fst (analyze self clock st (DataFrame d) symbol) =
     st\<lparr>indicators := (indicators st)(symbol \<mapsto> ind),
        cached_signals := (cached_signals st)(symbol \<mapsto> sg),
        last_update_time := (last_update_time st)(symbol \<mapsto> clock),
        invocations := invocations st @ [CalculateIndicators, GenerateSignals]\<rparr>"
    and "sg = None \<Longrightarrow> snd (analyze self clock st (DataFrame d) symbol) = Inr None"
  using assms
  by (simp_all add: analyze_def analyze_body_def handle_errors_def log_execution_time_def
      Let_def split: option.splits)

lemma analyze_returns: "\<exists>v. snd (analyze self clock st df symbol) = Inr v"
proof -
  obtain st' r where b: "analyze_body self clock st df symbol = (st', r)"
    by (cases "analyze_body self clock st df symbol")
  show ?thesis
    using handle_errors_returns [of "log_execution_time r"] by (simp add: analyze_def b)
qed

lemma analyze_string: "analyze self clock st (Str s) symbol = (st, Inr None)"
  by (simp add: analyze_def analyze_body_def handle_errors_def log_execution_time_def)

text \<open>
  Claim C2, at the empty window. The claim asks for a neutral result of strength 0 that
  is tagged with an explanatory reason, without a call of the indicator computation.
  On an empty window the result is neutral with strength 0 and nothing is called or
  written, and the result has no \<open>error\<close> key: the reason is missing. (The branch for a
  window that is too short sets the key, see \<open>analyze_short_window\<close>.)
\<close>

theorem analyze_empty_window_untagged:
  "analyze self clock st (DataFrame \<lparr>has_timestamp = ts, rows = []\<rparr>) symbol =
     (st, Inr (Some \<lparr>result_signal = ''neutral'', result_strength = Fin 0,
                     result_indicators = EmptyDict, result_timestamp = clock,
                     result_symbol = symbol, result_timeframe = timeframe self,
                     result_strategy = name self, result_error = None\<rparr>))"
  by (simp add: analyze_def analyze_body_def handle_errors_def log_execution_time_def)

text \<open>
  Claim C3 as stated fails: with an indicator computation that raises, \<open>analyze\<close>
  returns None, not a neutral signal with a reason.
\<close>

theorem analyze_error_is_not_neutral:
  "calculate_indicators raising_strategy (sort_by_timestamp False two_candles) = Inl ValueError \<and>
   snd (analyze raising_strategy 0 old_cache (DataFrame two_candles) ''X'') = Inr None"
  by (simp add: analyze_def analyze_body_def handle_errors_def log_execution_time_def
      raising_strategy_def two_candles_def Let_def)

text \<open>
  Claim C3, amended. \<open>analyze\<close> never propagates an exception, whatever it is given.
  When the indicator computation raises, or the signal generation raises or returns
  None (as a method decorated with \<open>handle_errors\<close> does on an error), \<open>analyze\<close>
  returns None: there is no result record and no reason.
\<close>

theorem analyze_errors_give_none:
  "(\<exists>v. snd (analyze self clock st df symbol) = Inr v) \<and>
   (rows d \<noteq> [] \<and> get_min_required_candles self \<le> length (rows d) \<and>
    (calculate_indicators self (sort_by_timestamp False d) = Inl e \<or>
     (\<exists>ind. calculate_indicators self (sort_by_timestamp False d) = Inr ind \<and>
        (generate_signals self (sort_by_timestamp False d) ind = Inl e \<or>
         generate_signals self (sort_by_timestamp False d) ind = Inr None)))
    \<longrightarrow> snd (analyze self clock st (DataFrame d) symbol) = Inr None)"
proof (intro conjI impI)
  show "\<exists>v. snd (analyze self clock st df symbol) = Inr v"
    by (rule analyze_returns)
next
  assume h: "rows d \<noteq> [] \<and> get_min_required_candles self \<le> length (rows d) \<and>
    (calculate_indicators self (sort_by_timestamp False d) = Inl e \<or>
     (\<exists>ind. calculate_indicators self (sort_by_timestamp False d) = Inr ind \<and>
        (generate_signals self (sort_by_timestamp False d) ind = Inl e \<or>
         generate_signals self (sort_by_timestamp False d) ind = Inr None)))"
  then have ne: "rows d \<noteq> []" and len: "get_min_required_candles self \<le> length (rows d)"
    by simp_all
  from h consider
      (calc) "calculate_indicators self (sort_by_timestamp False d) = Inl e"
    | (gen) ind where "calculate_indicators self (sort_by_timestamp False d) = Inr ind"
        "generate_signals self (sort_by_timestamp False d) ind = Inl e"
    | (none) ind where "calculate_indicators self (sort_by_timestamp False d) = Inr ind"
        "generate_signals self (sort_by_timestamp False d) ind = Inr None"
    by blast
  then show "snd (analyze self clock st (DataFrame d) symbol) = Inr None"
  proof cases
    case calc
    then show ?thesis by (simp add: analyze_calc_raises [OF ne len])
  next
    case gen
    then show ?thesis by (simp add: analyze_gen_raises [OF ne len])
  next
    case none
    then show ?thesis by (simp add: analyze_gen_returns(2) [OF ne len])
  qed
qed

theorem analyze_errors_give_none_witness:
  "rows two_candles \<noteq> [] \<and>
   get_min_required_candles half_failing_strategy \<le> length (rows two_candles) \<and>
   calculate_indicators half_failing_strategy (sort_by_timestamp False two_candles) =
     Inr (Some 1) \<and>
   generate_signals half_failing_strategy (sort_by_timestamp False two_candles) (Some 1) =
     Inl ValueError \<and>
   snd (analyze half_failing_strategy 0 old_cache (DataFrame two_candles) ''X'') = Inr None"
proof -
  have h: "rows two_candles \<noteq> [] \<and>
      get_min_required_candles half_failing_strategy \<le> length (rows two_candles) \<and>
      calculate_indicators half_failing_strategy (sort_by_timestamp False two_candles) =
        Inr (Some 1) \<and>
      generate_signals half_failing_strategy (sort_by_timestamp False two_candles) (Some 1) =
        Inl ValueError"
    by (simp add: two_candles_def half_failing_strategy_def)
  then have "snd (analyze half_failing_strategy 0 old_cache (DataFrame two_candles) ''X'') =
      Inr None"
    using analyze_errors_give_none
      [of half_failing_strategy 0 old_cache "DataFrame two_candles" "''X''" two_candles
          ValueError]
    by blast
  with h show ?thesis by blast
qed

text \<open>
  Claim C9 as stated fails: when the signal generation raises, the failing analysis
  leaves the new indicators (1) in the cache next to the previous signal.
\<close>

theorem analyze_partial_update:
  "indicators old_cache ''X'' = Some (Some 0) \<and>
   cached_signals old_cache ''X'' = Some (Some old_signal) \<and>
   indicators (fst (analyze half_failing_strategy 5 old_cache (DataFrame two_candles) ''X''))
     ''X'' = Some (Some 1) \<and>
   cached_signals (fst (analyze half_failing_strategy 5 old_cache (DataFrame two_candles) ''X''))
     ''X'' = Some (Some old_signal)"
proof -
  have ne: "rows two_candles \<noteq> []"
    and len: "get_min_required_candles half_failing_strategy \<le> length (rows two_candles)"
    and c: "calculate_indicators half_failing_strategy (sort_by_timestamp False two_candles) =
        Inr (Some 1)"
    and g: "generate_signals half_failing_strategy (sort_by_timestamp False two_candles)
        (Some 1) = Inl ValueError"
    by (simp_all add: two_candles_def half_failing_strategy_def)
  show ?thesis
    by (simp add: analyze_gen_raises [OF ne len c g]) (simp add: old_cache_def)
qed

text \<open>
  Claim C9, amended. For a window that passes the length checks: when the signal
  generation returns (a dict, or None after a swallowed error), the cached indicators,
  the cached signal and the update time of the symbol are replaced together; when the
  indicator computation raises, none of the three dicts changes; when the signal
  generation raises, the new indicators are cached and the signal and the update time
  stay as they were. Entries of other symbols never change.
\<close>

theorem cache_update_cases:
  assumes "rows d \<noteq> []" and "get_min_required_candles self \<le> length (rows d)"
  shows "(calculate_indicators self (sort_by_timestamp False d) = Inr ind \<and>
          generate_signals self (sort_by_timestamp False d) ind = Inr sg \<longrightarrow>
            indicators (fst (analyze self clock st (DataFrame d) symbol)) symbol = Some ind \<and>
            cached_signals (fst (analyze self clock st (DataFrame d) symbol)) symbol = Some sg \<and>
            last_update_time (fst (analyze self clock st (DataFrame d) symbol)) symbol =
              Some clock)
       \<and> (calculate_indicators self (sort_by_timestamp False d) = Inl e \<longrightarrow>
            indicators (fst (analyze self clock st (DataFrame d) symbol)) = indicators st \<and>
            cached_signals (fst (analyze self clock st (DataFrame d) symbol)) =
              cached_signals st \<and>
            last_update_time (fst (analyze self clock st (DataFrame d) symbol)) =
              last_update_time st)
       \<and> (calculate_indicators self (sort_by_timestamp False d) = Inr ind \<and>
          generate_signals self (sort_by_timestamp False d) ind = Inl e \<longrightarrow>
            indicators (fst (analyze self clock st (DataFrame d) symbol)) symbol = Some ind \<and>
            cached_signals (fst (analyze self clock st (DataFrame d) symbol)) =
              cached_signals st \<and>
            last_update_time (fst (analyze self clock st (DataFrame d) symbol)) =
              last_update_time st)
       \<and> (other \<noteq> symbol \<longrightarrow>
            indicators (fst (analyze self clock st (DataFrame d) symbol)) other =
              indicators st other \<and>
            cached_signals (fst (analyze self clock st (DataFrame d) symbol)) other =
              cached_signals st other \<and>
            last_update_time (fst (analyze self clock st (DataFrame d) symbol)) other =
              last_update_time st other)"
proof (intro conjI impI)
  assume "calculate_indicators self (sort_by_timestamp False d) = Inr ind \<and>
          generate_signals self (sort_by_timestamp False d) ind = Inr sg"
  then have f: "fst (analyze self clock st (DataFrame d) symbol) =
     st\<lparr>indicators := (indicators st)(symbol \<mapsto> ind),
        cached_signals := (cached_signals st)(symbol \<mapsto> sg),
        last_update_time := (last_update_time st)(symbol \<mapsto> clock),
        invocations := invocations st @ [CalculateIndicators, GenerateSignals]\<rparr>"
    using analyze_gen_returns(1) [OF assms] by blast
  show "indicators (fst (analyze self clock st (DataFrame d) symbol)) symbol = Some ind"
    and "cached_signals (fst (analyze self clock st (DataFrame d) symbol)) symbol = Some sg"
    and "last_update_time (fst (analyze self clock st (DataFrame d) symbol)) symbol = Some clock"
    by (simp_all add: f)
next
  assume c: "calculate_indicators self (sort_by_timestamp False d) = Inl e"
  show "indicators (fst (analyze self clock st (DataFrame d) symbol)) = indicators st"
    and "cached_signals (fst (analyze self clock st (DataFrame d) symbol)) = cached_signals st"
    and "last_update_time (fst (analyze self clock st (DataFrame d) symbol)) = last_update_time st"
    by (simp_all add: analyze_calc_raises [OF assms c])
next
  assume "calculate_indicators self (sort_by_timestamp False d) = Inr ind \<and>
          generate_signals self (sort_by_timestamp False d) ind = Inl e"
  then have c: "calculate_indicators self (sort_by_timestamp False d) = Inr ind"
    and g: "generate_signals self (sort_by_timestamp False d) ind = Inl e"
    by simp_all
  show "indicators (fst (analyze self clock st (DataFrame d) symbol)) symbol = Some ind"
    and "cached_signals (fst (analyze self clock st (DataFrame d) symbol)) = cached_signals st"
    and "last_update_time (fst (analyze self clock st (DataFrame d) symbol)) = last_update_time st"
    by (simp_all add: analyze_gen_raises [OF assms c g])
next
  assume o: "other \<noteq> symbol"
  have "indicators (fst (analyze self clock st (DataFrame d) symbol)) other =
          indicators st other \<and>
        cached_signals (fst (analyze self clock st (DataFrame d) symbol)) other =
          cached_signals st other \<and>
        last_update_time (fst (analyze self clock st (DataFrame d) symbol)) other =
          last_update_time st other"
  proof (cases "calculate_indicators self (sort_by_timestamp False d)")
    case (Inl x)
    then show ?thesis by (simp add: analyze_calc_raises [OF assms])
  next
    case c: (Inr i)
    show ?thesis
    proof (cases "generate_signals self (sort_by_timestamp False d) i")
      case (Inl x)
      then show ?thesis using o by (simp add: analyze_gen_raises [OF assms c])
    next
      case (Inr s)
      then show ?thesis using o by (simp add: analyze_gen_returns(1) [OF assms c])
    qed
  qed
  then show "indicators (fst (analyze self clock st (DataFrame d) symbol)) other =
          indicators st other"
    and "cached_signals (fst (analyze self clock st (DataFrame d) symbol)) other =
          cached_signals st other"
    and "last_update_time (fst (analyze self clock st (DataFrame d) symbol)) other =
          last_update_time st other"
    by simp_all
qed

theorem cache_update_cases_witness:
  "rows two_candles \<noteq> [] \<and>
   get_min_required_candles working_strategy \<le> length (rows two_candles) \<and>
   calculate_indicators working_strategy (sort_by_timestamp False two_candles) = Inr (Some 1) \<and>
   generate_signals working_strategy (sort_by_timestamp False two_candles) (Some 1) =
     Inr (Some \<lparr>signal = Some ''buy'', strength = Some (Fin 1)\<rparr>) \<and>
   indicators (fst (analyze working_strategy 5 old_cache (DataFrame two_candles) ''X'')) ''X'' =
     Some (Some 1) \<and>
   cached_signals (fst (analyze working_strategy 5 old_cache (DataFrame two_candles) ''X''))
     ''X'' = Some (Some \<lparr>signal = Some ''buy'', strength = Some (Fin 1)\<rparr>) \<and>
   last_update_time (fst (analyze working_strategy 5 old_cache (DataFrame two_candles) ''X''))
     ''X'' = Some 5 \<and>
   get_min_required_candles raising_strategy \<le> length (rows two_candles) \<and>
   calculate_indicators raising_strategy (sort_by_timestamp False two_candles) = Inl ValueError \<and>
   indicators (fst (analyze raising_strategy 5 old_cache (DataFrame two_candles) ''X'')) =
     indicators old_cache \<and>
   get_min_required_candles half_failing_strategy \<le> length (rows two_candles) \<and>
   calculate_indicators half_failing_strategy (sort_by_timestamp False two_candles) =
     Inr (Some 1) \<and>
   generate_signals half_failing_strategy (sort_by_timestamp False two_candles) (Some 1) =
     Inl ValueError \<and>
   cached_signals (fst (analyze half_failing_strategy 5 old_cache (DataFrame two_candles) ''X''))
     = cached_signals old_cache \<and>
   ''Y'' \<noteq> ''X'' \<and>
   indicators (fst (analyze working_strategy 5 old_cache (DataFrame two_candles) ''X'')) ''Y'' =
     indicators old_cache ''Y''"
proof -
  have ne: "rows two_candles \<noteq> []"
    by (simp add: two_candles_def)
  have w: "get_min_required_candles working_strategy \<le> length (rows two_candles)"
    "calculate_indicators working_strategy (sort_by_timestamp False two_candles) = Inr (Some 1) \<and>
     generate_signals working_strategy (sort_by_timestamp False two_candles) (Some 1) =
       Inr (Some \<lparr>signal = Some ''buy'', strength = Some (Fin 1)\<rparr>)"
    by (simp_all add: two_candles_def working_strategy_def)
  have r: "get_min_required_candles raising_strategy \<le> length (rows two_candles)"
    "calculate_indicators raising_strategy (sort_by_timestamp False two_candles) = Inl ValueError"
    by (simp_all add: two_candles_def raising_strategy_def)
  have h: "get_min_required_candles half_failing_strategy \<le> length (rows two_candles)"
    "calculate_indicators half_failing_strategy (sort_by_timestamp False two_candles) =
       Inr (Some 1) \<and>
     generate_signals half_failing_strategy (sort_by_timestamp False two_candles) (Some 1) =
       Inl ValueError"
    by (simp_all add: two_candles_def half_failing_strategy_def)
  have y: "''Y'' \<noteq> ''X''" by simp
  note tw = cache_update_cases [OF ne w(1), of "Some 1"
      "Some \<lparr>signal = Some ''buy'', strength = Some (Fin 1)\<rparr>" 5 old_cache "''X''" ValueError
      "''Y''"]
  note tr = cache_update_cases [OF ne r(1), of "Some 1" None 5 old_cache "''X''" ValueError
      "''Y''"]
  note th = cache_update_cases [OF ne h(1), of "Some 1" None 5 old_cache "''X''" ValueError
      "''Y''"]
  from tw w(2) y have a:
    "indicators (fst (analyze working_strategy 5 old_cache (DataFrame two_candles) ''X'')) ''X'' =
       Some (Some 1)"
    "cached_signals (fst (analyze working_strategy 5 old_cache (DataFrame two_candles) ''X''))
       ''X'' = Some (Some \<lparr>signal = Some ''buy'', strength = Some (Fin 1)\<rparr>)"
    "last_update_time (fst (analyze working_strategy 5 old_cache (DataFrame two_candles) ''X''))
       ''X'' = Some 5"
    "indicators (fst (analyze working_strategy 5 old_cache (DataFrame two_candles) ''X'')) ''Y'' =
       indicators old_cache ''Y''"
    by blast+
  from tr r(2) have b:
    "indicators (fst (analyze raising_strategy 5 old_cache (DataFrame two_candles) ''X'')) =
       indicators old_cache"
    by blast
  from th h(2) have c:
    "cached_signals (fst (analyze half_failing_strategy 5 old_cache (DataFrame two_candles) ''X''))
       = cached_signals old_cache"
    by blast
  from ne w r h y a b c show ?thesis by blast
qed

text \<open>
  Claim C5, at the base interval 15 (three coarser timeframes selected) and at D (none
  selected). The claim asks for confirmations counted over the per-timeframe signals
  and a confidence, 1.0 when nothing is selected. The loop calls \<open>analyze\<close> with the
  symbol in place of the data frame, so \<open>analyze\<close> returns None for the first
  timeframe, the read of its signal raises, and the result is \<open>confirmed = False\<close> with
  an error, whatever the strategy and the market. With nothing selected the early
  return has no \<open>confidence\<close> key.
\<close>

theorem multi_timeframe_confirmation_fails:
  "check_intervals ''15'' = [''60'', ''240'', ''D''] \<and>
   check_multi_timeframe_confirmation self clock st ''BTCUSDT'' ''15'' ''buy'' =
     (st, \<lparr>confirmed = False, confidence = None, confirmations = None,
           total_timeframes = None, details = None,
           confirmation_error = Some AttributeError\<rparr>) \<and>
   check_intervals ''D'' = [] \<and>
   check_multi_timeframe_confirmation self clock st ''BTCUSDT'' ''D'' ''buy'' =
     (st, \<lparr>confirmed = True, confidence = None, confirmations = Some 0,
           total_timeframes = None, details = Some [], confirmation_error = None\<rparr>)"
proof -
  have a: "check_intervals ''15'' = [''60'', ''240'', ''D'']"
    by (simp add: check_intervals_def intervals_def)
  have b: "check_intervals ''D'' = []"
    by (simp add: check_intervals_def intervals_def)
  show ?thesis
    by (simp add: check_multi_timeframe_confirmation_def a b analyze_string)
qed

section \<open>Data frames: results\<close>

lemma length_rolling: "length (rolling f n xs) = length xs"
  by (simp add: rolling_def)

lemma last_rolling:
  assumes "xs \<noteq> []"
  shows "last (rolling f n xs) =
     (if n = 0 \<or> length xs < n then NaN else Fin (f (drop (length xs - n) xs)))"
proof -
  have u: "[0..<length xs] = [0..<length xs - 1] @ [length xs - 1]"
    using assms by (metis Suc_pred' length_greater_0_conv upt_Suc_append zero_le)
  have "last (rolling f n xs) =
      (if n = 0 \<or> (length xs - 1) + 1 < n then NaN
       else Fin (f (take n (drop ((length xs - 1) + 1 - n) xs))))"
    unfolding rolling_def by (subst u) simp
  moreover have "(length xs - 1) + 1 = length xs"
    using assms by (simp add: Suc_leI)
  ultimately show ?thesis by auto
qed

lemma length_series2: "length (series2 f xs ys) = min (length xs) (length ys)"
  by (simp add: series2_def)

lemma last_series2:
  assumes "length xs = length ys" and "xs \<noteq> []"
  shows "last (series2 f xs ys) = f (last xs) (last ys)"
proof -
  have ys: "ys \<noteq> []" using assms by auto
  have z: "zip xs ys \<noteq> []" using assms ys by (cases xs; cases ys) auto
  have "last (series2 f xs ys) = (\<lambda>(x, y). f x y) (last (zip xs ys))"
    using z by (simp add: series2_def last_map)
  also have "last (zip xs ys) = (last xs, last ys)"
    using assms ys z by (simp add: last_conv_nth)
  finally show ?thesis by simp
qed

lemma list_max_ge: "x \<in> set xs \<Longrightarrow> x \<le> list_max xs"
  by (induction xs rule: list_max.induct) auto

lemma list_min_le: "x \<in> set xs \<Longrightarrow> list_min xs \<le> x"
  by (induction xs rule: list_min.induct) auto

lemma length_rows_sorted: "length (rows (sort_by_timestamp b df)) = length (rows df)"
  by (simp add: sort_by_timestamp_def)

lemma rows_sorted_empty: "rows (sort_by_timestamp b df) = [] \<longleftrightarrow> rows df = []"
  using length_rows_sorted [of b df] by (metis length_0_conv)

lemma set_rows_sorted: "set (rows (sort_by_timestamp b df)) = set (rows df)"
  by (simp add: sort_by_timestamp_def)

lemma newest_first:
  "has_timestamp df \<Longrightarrow> rows df \<noteq> [] \<Longrightarrow>
   hd (rows (sort_by_timestamp False df)) = last (rows (sort_by_timestamp True df))"
  by (simp add: sort_by_timestamp_def hd_rev)

lemma shift_length: "length (shift n xs) = length xs"
  by (simp add: shift_def)

section \<open>The channel-breakout strategy: results\<close>

lemma last_in_drop: "k < length xs \<Longrightarrow> last xs \<in> set (drop k xs)"
  by (metis drop_eq_Nil last_drop last_in_set not_le)

lemma rolling_max_upper:
  assumes "rs \<noteq> []"
  shows "last (rolling list_max n (map high rs)) = NaN \<or>
         (\<exists>m. last (rolling list_max n (map high rs)) = Fin m \<and> high (last rs) \<le> m)"
proof (cases "n = 0 \<or> length rs < n")
  case True
  then show ?thesis using assms by (simp add: last_rolling)
next
  case False
  then have k: "length rs - n < length (map high rs)" using assms by simp
  have "last (map high rs) \<in> set (drop (length rs - n) (map high rs))"
    using k by (rule last_in_drop)
  then have "high (last rs) \<le> list_max (drop (length rs - n) (map high rs))"
    using assms by (simp add: last_map list_max_ge)
  then show ?thesis using False assms by (simp add: last_rolling)
qed

lemma rolling_min_lower:
  assumes "rs \<noteq> []"
  shows "last (rolling list_min n (map low rs)) = NaN \<or>
         (\<exists>m. last (rolling list_min n (map low rs)) = Fin m \<and> m \<le> low (last rs))"
proof (cases "n = 0 \<or> length rs < n")
  case True
  then show ?thesis using assms by (simp add: last_rolling)
next
  case False
  then have k: "length rs - n < length (map low rs)" using assms by simp
  have "last (map low rs) \<in> set (drop (length rs - n) (map low rs))"
    using k by (rule last_in_drop)
  then have "list_min (drop (length rs - n) (map low rs)) \<le> low (last rs)"
    using assms by (simp add: last_map list_min_le)
  then show ?thesis using False assms by (simp add: last_rolling)
qed

lemma last_series2_length:
  "length xs = length ys \<Longrightarrow> 0 < length ys \<Longrightarrow>
   last (series2 f xs ys) = f (last xs) (last ys)"
  by (rule last_series2) auto

lemma length_true_range_from: "length (true_range_from q rs) = length rs"
  by (induction rs arbitrary: q) simp_all

lemma calculate_indicators_returns:
  assumes "rows df \<noteq> []"
  shows "\<exists>ind. donchian_calculate_indicators p df = Inr (Some ind) \<and>
     highest_high ind =
       last (rolling list_max (period p) (map high (rows (sort_by_timestamp True df)))) \<and>
     lowest_low ind =
       last (rolling list_min (period p) (map low (rows (sort_by_timestamp True df)))) \<and>
     atr ind =
       last (rolling mean (atr_period p) (true_range (rows (sort_by_timestamp True df)))) \<and>
     volatility ind =
       fmul (fdiv (atr ind) (Fin (close (last (rows (sort_by_timestamp True df)))))) (Fin 100)"
proof -
  have ne: "rows (sort_by_timestamp True df) \<noteq> []"
    using assms by (simp add: rows_sorted_empty)
  show ?thesis
    using ne
    by (simp add: donchian_calculate_indicators_def calculate_indicators_body_def Let_def
        handle_errors_def last_series2_length length_rolling true_range_def
        length_true_range_from last_map)
qed

lemma decide_no_breakout:
  assumes "\<not> fgt (Fin cc) (highest_high ind)" and "\<not> flt (Fin cc) (lowest_low ind)"
    and "decide p cc pc ind = Inr (sig, str, why)"
  shows "sig \<noteq> ''buy'' \<and> sig \<noteq> ''sell''"
  using assms
  by (auto simp: decide_def and_previous_def split: if_splits sum.splits option.splits bool.splits)

lemma and_previous_Some: "and_previous first (Some pc) rest = Inr (first \<and> rest pc)"
  by (simp add: and_previous_def)

lemma decide_returns: "\<exists>sig str why. decide p cc (Some pc) ind = Inr (sig, str, why)"
  by (simp add: decide_def and_previous_Some split: bool.split)

lemma generate_signals_SomeD:
  assumes "donchian_generate_signals p df inds = Inr (Some d)"
  shows "\<exists>ind pc sig str why. inds = Some ind \<and> rows df \<noteq> [] \<and>
     decide p (close (hd (rows (sort_by_timestamp False df)))) pc ind = Inr (sig, str, why) \<and>
     signal d = Some sig \<and> strength d = Some str"
proof -
  have ne: "rows (sort_by_timestamp False df) \<noteq> []"
    using assms
    by (auto simp: donchian_generate_signals_def generate_signals_body_def handle_errors_def
        iloc_first_def Let_def split: list.splits sum.splits)
  then obtain r rs where rs: "rows (sort_by_timestamp False df) = r # rs"
    by (cases "rows (sort_by_timestamp False df)") auto
  have ne': "rows df \<noteq> []"
    using ne by (simp add: rows_sorted_empty)
  obtain ind where ind: "inds = Some ind"
    using assms
    by (cases inds)
      (auto simp: donchian_generate_signals_def generate_signals_body_def handle_errors_def
        iloc_first_def Let_def rs)
  define pc where "pc = (if length (r # rs) > 1 then Some (close ((r # rs) ! 1)) else None)"
  obtain sig str why where dec: "decide p (close r) pc ind = Inr (sig, str, why)"
    and sg: "signal d = Some sig" and st: "strength d = Some str"
    using assms
    by (auto simp: donchian_generate_signals_def generate_signals_body_def handle_errors_def
        iloc_first_def Let_def rs ind pc_def split: sum.splits prod.splits)
  show ?thesis
    using ind ne' dec sg st by (auto simp: rs)
qed

lemma generate_signals_returns:
  assumes "2 \<le> length (rows df)"
  shows "\<exists>d sig str why.
     decide p (close (hd (rows (sort_by_timestamp False df))))
       (Some (close (rows (sort_by_timestamp False df) ! 1))) ind = Inr (sig, str, why) \<and>
     donchian_generate_signals p df (Some ind) = Inr (Some d) \<and>
     signal d = Some sig \<and> strength d = Some str"
proof -
  have len: "1 < length (rows (sort_by_timestamp False df))"
    using assms by (simp add: length_rows_sorted)
  then obtain r rs where rs: "rows (sort_by_timestamp False df) = r # rs"
    by (cases "rows (sort_by_timestamp False df)") auto
  obtain sig str why where
    d: "decide p (close r) (Some (close (rows (sort_by_timestamp False df) ! 1))) ind
        = Inr (sig, str, why)"
    using decide_returns by blast
  show ?thesis
    using len d
    by (simp add: donchian_generate_signals_def generate_signals_body_def handle_errors_def
        iloc_first_def Let_def rs)
qed

lemma not_negative_fadd: "not_negative a \<Longrightarrow> not_negative b \<Longrightarrow> not_negative (fadd a b)"
  by (cases a; cases b) auto

lemma not_negative_fdiv: "not_negative a \<Longrightarrow> 0 < c \<Longrightarrow> not_negative (fdiv a (Fin c))"
  by (cases a) auto

lemma not_negative_fmul: "not_negative a \<Longrightarrow> 0 < c \<Longrightarrow> not_negative (fmul a (Fin c))"
  by (cases a) (auto simp: of_sign_def)

lemma not_negative_fabs: "not_negative (fabs a)"
  by (cases a) auto

lemma fgt_not_negative: "fgt a (Fin t) \<Longrightarrow> 0 \<le> t \<Longrightarrow> not_negative a"
  by (cases a) (auto simp: fgt_def)

lemma py_min_bounds:
  "not_negative x \<Longrightarrow> 0 \<le> c \<Longrightarrow> \<exists>s. py_min (Fin c) x = Fin s \<and> 0 \<le> s \<and> s \<le> c"
  by (cases x) (auto simp: py_min_def)

lemma buy_strength_bounds:
  assumes "not_negative (volume_ratio ind)" and "not_negative (volatility ind)"
  shows "\<exists>s. buy_strength ind = Fin s \<and> 0 \<le> s \<and> s \<le> 9 / 10"
proof -
  have m: "not_negative (if fgt (roc ind) (Fin 0) then fmul (roc ind) (Fin 10) else Fin 0)"
    using fgt_not_negative [of "roc ind" 0] by (simp add: not_negative_fmul)
  have "not_negative
     (fadd (fadd (fadd (Fin (1 / 2)) (fdiv (volume_ratio ind) (Fin 10)))
                 (if fgt (roc ind) (Fin 0) then fmul (roc ind) (Fin 10) else Fin 0))
           (fdiv (volatility ind) (Fin 100)))"
    using assms m by (intro not_negative_fadd not_negative_fdiv) simp_all
  then show ?thesis
    unfolding buy_strength_def by (rule py_min_bounds) simp
qed

lemma sell_strength_bounds:
  assumes "not_negative (volume_ratio ind)" and "not_negative (volatility ind)"
  shows "\<exists>s. sell_strength ind = Fin s \<and> 0 \<le> s \<and> s \<le> 9 / 10"
proof -
  have m: "not_negative (if flt (roc ind) (Fin 0) then fmul (fabs (roc ind)) (Fin 10) else Fin 0)"
    by (simp add: not_negative_fmul not_negative_fabs)
  have "not_negative
     (fadd (fadd (fadd (Fin (1 / 2)) (fdiv (volume_ratio ind) (Fin 10)))
                 (if flt (roc ind) (Fin 0) then fmul (fabs (roc ind)) (Fin 10) else Fin 0))
           (fdiv (volatility ind) (Fin 100)))"
    using assms m by (intro not_negative_fadd not_negative_fdiv) simp_all
  then show ?thesis
    unfolding sell_strength_def by (rule py_min_bounds) simp
qed

lemma decide_strength:
  assumes "decide p cc (Some pc) ind = Inr (sig, str, why)"
    and "0 \<le> volume_threshold p" and "not_negative (volatility ind)"
  shows "\<exists>s. str = Fin s \<and> 0 \<le> s \<and> s \<le> 1"
proof -
  have vr: "fgt (volume_ratio ind) (Fin (volume_threshold p)) \<Longrightarrow> not_negative (volume_ratio ind)"
    using assms(2) by (rule fgt_not_negative [rotated])
  have b: "fgt (volume_ratio ind) (Fin (volume_threshold p)) \<Longrightarrow>
      \<exists>s. buy_strength ind = Fin s \<and> 0 \<le> s \<and> s \<le> 1"
    using buy_strength_bounds [OF vr assms(3)] by force
  have s: "fgt (volume_ratio ind) (Fin (volume_threshold p)) \<Longrightarrow>
      \<exists>s. sell_strength ind = Fin s \<and> 0 \<le> s \<and> s \<le> 1"
    using sell_strength_bounds [OF vr assms(3)] by force
  show ?thesis
    using assms(1) b s
    by (auto simp: decide_def and_previous_Some split: bool.splits if_splits)
qed

lemma true_range_from_nonneg: "\<forall>x \<in> set (true_range_from (Some q) cs). 0 \<le> x"
  by (induction cs arbitrary: q) auto

lemma mean_nonneg: "\<forall>x \<in> set xs. 0 \<le> x \<Longrightarrow> 0 \<le> mean xs"
  by (simp add: mean_def sum_list_nonneg)

lemma atr_not_negative:
  assumes "n < length rs"
  shows "not_negative (last (rolling mean n (true_range rs)))"
proof -
  obtain c cs where rs: "rs = c # cs"
    using assms by (cases rs) auto
  have ne: "true_range rs \<noteq> []" by (simp add: rs true_range_def)
  have len: "length (true_range rs) = length rs"
    by (simp add: true_range_def length_true_range_from)
  show ?thesis
  proof (cases "n = 0")
    case True
    then show ?thesis by (simp add: last_rolling [OF ne])
  next
    case False
    have "length rs - n = Suc (length cs - n)"
      using assms by (simp add: rs Suc_diff_le)
    then have "drop (length rs - n) (true_range rs) =
        drop (length cs - n) (true_range_from (Some (close c)) cs)"
      by (simp add: rs true_range_def)
    then have "\<forall>x \<in> set (drop (length rs - n) (true_range rs)). 0 \<le> x"
      using true_range_from_nonneg [of "close c" cs] by (auto dest: in_set_dropD)
    then have "0 \<le> mean (drop (length rs - n) (true_range rs))"
      by (rule mean_nonneg)
    then show ?thesis
      using False assms by (simp add: last_rolling [OF ne] len)
  qed
qed

lemma pipeline_SomeD:
  assumes "donchian_pipeline p df = Inr (Some d)"
  shows "\<exists>ind pc sig str why.
     donchian_calculate_indicators p df = Inr (Some ind) \<and> rows df \<noteq> [] \<and>
     decide p (close (hd (rows (sort_by_timestamp False df)))) pc ind = Inr (sig, str, why) \<and>
     signal d = Some sig \<and> strength d = Some str"
proof -
  obtain inds where c: "donchian_calculate_indicators p df = Inr inds"
    and g: "donchian_generate_signals p df inds = Inr (Some d)"
    using assms by (auto simp: donchian_pipeline_def split: sum.splits)
  from generate_signals_SomeD [OF g] c show ?thesis by blast
qed


lemma pipeline_returns:
  assumes "2 \<le> length (rows df)"
  shows "\<exists>ind d sig str why.
     donchian_calculate_indicators p df = Inr (Some ind) \<and>
     donchian_pipeline p df = Inr (Some d) \<and>
     decide p (close (hd (rows (sort_by_timestamp False df))))
       (Some (close (rows (sort_by_timestamp False df) ! 1))) ind = Inr (sig, str, why) \<and>
     signal d = Some sig \<and> strength d = Some str"
proof -
  have ne: "rows df \<noteq> []" using assms by auto
  obtain ind where c: "donchian_calculate_indicators p df = Inr (Some ind)"
    using calculate_indicators_returns [OF ne, of p] by blast
  from generate_signals_returns [OF assms, of p ind] c show ?thesis
    by (auto simp: donchian_pipeline_def)
qed


lemma list_min_pos: "xs \<noteq> [] \<Longrightarrow> \<forall>x \<in> set xs. 0 < x \<Longrightarrow> 0 < list_min xs"
  by (induction xs rule: list_min.induct) auto


lemma calculate_indicators_fields:
  assumes "rows df \<noteq> []"
  shows "\<exists>ind. donchian_calculate_indicators p df = Inr (Some ind) \<and>
     highest_high ind =
       last (rolling list_max (period p) (map high (rows (sort_by_timestamp True df)))) \<and>
     lowest_low ind =
       last (rolling list_min (period p) (map low (rows (sort_by_timestamp True df)))) \<and>
     exit_high ind =
       last (rolling list_max (exit_period p) (map high (rows (sort_by_timestamp True df)))) \<and>
     exit_low ind =
       last (rolling list_min (exit_period p) (map low (rows (sort_by_timestamp True df)))) \<and>
     atr ind =
       last (rolling mean (atr_period p) (true_range (rows (sort_by_timestamp True df)))) \<and>
     volume_ratio ind =
       fdiv (Fin (volume (last (rows (sort_by_timestamp True df)))))
         (last (rolling mean (period p) (map volume (rows (sort_by_timestamp True df))))) \<and>
     trend_up ind =
       fgt (last (rolling mean 20 (map close (rows (sort_by_timestamp True df)))))
         (last (rolling mean 50 (map close (rows (sort_by_timestamp True df)))))"
proof -
  have ne: "rows (sort_by_timestamp True df) \<noteq> []"
    using assms by (simp add: rows_sorted_empty)
  show ?thesis
    using ne
    by (simp add: donchian_calculate_indicators_def calculate_indicators_body_def Let_def
        handle_errors_def last_series2_length length_rolling true_range_def
        length_true_range_from last_map)
qed

lemma generate_signals_levels:
  assumes "2 \<le> length (rows df)"
  shows "\<exists>d sig str why.
     decide p (close (hd (rows (sort_by_timestamp False df))))
       (Some (close (rows (sort_by_timestamp False df) ! 1))) ind = Inr (sig, str, why) \<and>
     donchian_generate_signals p df (Some ind) = Inr (Some d) \<and>
     signal d = Some sig \<and> strength d = Some str \<and>
     stop_loss_level d =
       (if sig = ''buy'' then Some (stop_loss_long ind)
        else if sig = ''sell'' then Some (stop_loss_short ind) else None)"
proof -
  have len: "1 < length (rows (sort_by_timestamp False df))"
    using assms by (simp add: length_rows_sorted)
  then obtain r rs where rs: "rows (sort_by_timestamp False df) = r # rs"
    by (cases "rows (sort_by_timestamp False df)") auto
  obtain sig str why where
    d: "decide p (close r) (Some (close (rows (sort_by_timestamp False df) ! 1))) ind
        = Inr (sig, str, why)"
    using decide_returns by blast
  show ?thesis
    using len d
    by (simp add: donchian_generate_signals_def generate_signals_body_def handle_errors_def
        iloc_first_def Let_def rs)
qed

lemma unsorted_rows:
  "\<not> has_timestamp df \<Longrightarrow> rows (sort_by_timestamp b df) = rows df"
  by (simp add: sort_by_timestamp_def)

lemma ascending_rows:
  "sorted (map timestamp (rows df)) \<Longrightarrow> rows (sort_by_timestamp True df) = rows df"
  by (simp add: sort_by_timestamp_def sort_key_id_if_sorted)

lemma descending_rows:
  "has_timestamp df \<Longrightarrow> sorted (map timestamp (rows df)) \<Longrightarrow>
   rows (sort_by_timestamp False df) = rev (rows df)"
  by (simp add: sort_by_timestamp_def sort_key_id_if_sorted)

lemma breakout_sorted: "sorted (map timestamp (rows breakout_window))"
  by (simp add: breakout_window_def rising_bar_def breakout_bar_def)

lemma breakout_channel:
  "last (rolling list_max 20 (map high (rows breakout_window))) = Fin 101"
  "last (rolling list_min 20 (map low (rows breakout_window))) = Fin 81"
  "last (rolling list_max 10 (map high (rows breakout_window))) = Fin 101"
  "last (rolling list_min 10 (map low (rows breakout_window))) = Fin 91"
  by (simp_all add: last_rolling breakout_window_def rising_bar_def breakout_bar_def)

lemma breakout_atr:
  "last (rolling mean 14 (true_range (rows breakout_window))) = Fin 1"
  by (simp add: last_rolling breakout_window_def true_range_def rising_bar_def breakout_bar_def
      mean_def)

lemma breakout_volume:
  "fdiv (Fin (volume (last (rows breakout_window))))
     (last (rolling mean 20 (map volume (rows breakout_window)))) = Fin 2"
  by (simp add: last_rolling breakout_window_def rising_bar_def breakout_bar_def mean_def)

lemma breakout_trend:
  "fgt (last (rolling mean 20 (map close (rows breakout_window))))
     (last (rolling mean 50 (map close (rows breakout_window)))) = False"
  by (simp add: last_rolling breakout_window_def fgt_def)

lemma decide_at_upper_bound:
  assumes "highest_high ind = Fin c" and "lowest_low ind = Fin l" and "l < c"
    and "exit_high ind = Fin c" and "exit_low ind = Fin e" and "e < c"
    and "atr ind = Fin a" and "l + a / 2 \<le> c"
  shows "decide p c pc ind = Inr (''neutral'', Fin 0, NoClearSignals)"
  using assms(3,6,8)
  by (simp add: decide_def and_previous_def fgt_def fsub_def assms(1,2,4,5,7))

lemma headless_channel:
  "last (rolling list_max 20 (map high (rows headless_window))) = Fin 10"
  "last (rolling list_min 20 (map low (rows headless_window))) = Fin 10"
  by (simp_all add: last_rolling headless_window_def bar_at_def)

lemma headless_volume:
  "fdiv (Fin (volume (last (rows headless_window))))
     (last (rolling mean 20 (map volume (rows headless_window)))) = Fin (200 / 29)"
  by (simp add: last_rolling headless_window_def bar_at_def mean_def)

lemma headless_trend:
  "fgt (last (rolling mean 20 (map close (rows headless_window))))
     (last (rolling mean 50 (map close (rows headless_window)))) = False"
  by (simp add: last_rolling headless_window_def fgt_def)

lemma decide_below_lower_bound:
  assumes "highest_high ind = Fin 10" and "lowest_low ind = Fin 10"
    and "volume_ratio ind = Fin (200 / 29)" and "\<not> trend_up ind"
  shows "\<exists>str why. decide default_donchian 1 (Some 10) ind = Inr (''sell'', str, why)"
  by (simp add: decide_def and_previous_def fgt_def fge_def assms default_donchian_def)


lemma thirty_rising_sorted: "sorted (map timestamp (rows thirty_rising))"
  by (simp add: thirty_rising_def rising_bar_def late_breakout_bar_def)

lemma thirty_rising_channel:
  "last (rolling list_max 20 (map high (rows thirty_rising))) = Fin 106"
  "last (rolling list_min 20 (map low (rows thirty_rising))) = Fin 86"
  by (simp_all add: last_rolling thirty_rising_def rising_bar_def late_breakout_bar_def)


text \<open>
  Claim C10 as stated fails on a frame without the timestamp column: nothing is
  sorted, the indicators are read at the last row and the current close at the first.
  On thirty flat bars, each with low = close = high, the first at 1 and the others at
  10, the signal is sell.
\<close>

theorem headless_window_sells:
  "\<not> has_timestamp headless_window \<and>
   set (rows headless_window) = {bar_at 1 1, bar_at 10 1, bar_at 10 10} \<and>
   low (bar_at 1 1) \<le> close (bar_at 1 1) \<and> close (bar_at 1 1) \<le> high (bar_at 1 1) \<and>
   low (bar_at 10 1) \<le> close (bar_at 10 1) \<and> close (bar_at 10 1) \<le> high (bar_at 10 1) \<and>
   low (bar_at 10 10) \<le> close (bar_at 10 10) \<and> close (bar_at 10 10) \<le> high (bar_at 10 10) \<and>
   kind_of (donchian_pipeline default_donchian headless_window) = Some ''sell''"
proof -
  have nts: "\<not> has_timestamp headless_window"
    by (simp add: headless_window_def)
  have st: "set (rows headless_window) = {bar_at 1 1, bar_at 10 1, bar_at 10 10}"
    by (auto simp: headless_window_def)
  have wf: "low (bar_at 1 1) \<le> close (bar_at 1 1) \<and> close (bar_at 1 1) \<le> high (bar_at 1 1) \<and>
      low (bar_at 10 1) \<le> close (bar_at 10 1) \<and> close (bar_at 10 1) \<le> high (bar_at 10 1) \<and>
      low (bar_at 10 10) \<le> close (bar_at 10 10) \<and> close (bar_at 10 10) \<le> high (bar_at 10 10)"
    by (simp add: bar_at_def)
  have ne: "rows headless_window \<noteq> []" and len: "2 \<le> length (rows headless_window)"
    by (simp_all add: headless_window_def)
  note same_rows = unsorted_rows [OF nts]
  obtain ind where c: "donchian_calculate_indicators default_donchian headless_window
      = Inr (Some ind)"
    and hh: "highest_high ind = Fin 10" and ll: "lowest_low ind = Fin 10"
    and vr: "volume_ratio ind = Fin (200 / 29)" and tu: "\<not> trend_up ind"
    using calculate_indicators_fields [OF ne, of default_donchian]
    by (auto simp: same_rows default_donchian_def headless_channel headless_volume
        headless_trend)
  have cc: "close (hd (rows (sort_by_timestamp False headless_window))) = 1"
    and pc: "close (rows (sort_by_timestamp False headless_window) ! Suc 0) = 10"
    by (simp_all add: same_rows) (simp_all add: headless_window_def bar_at_def)
  obtain str why where
    dec: "decide default_donchian 1 (Some 10) ind = Inr (''sell'', str, why)"
    using decide_below_lower_bound [OF hh ll vr tu] by blast
  obtain d where g: "donchian_generate_signals default_donchian headless_window (Some ind)
      = Inr (Some d)"
    and s: "signal d = Some ''sell''"
    using generate_signals_levels [OF len, of default_donchian ind]
    by (auto simp: cc pc dec)
  have "kind_of (donchian_pipeline default_donchian headless_window) = Some ''sell''"
    by (simp add: kind_of_def donchian_pipeline_def c g s)
  with nts st wf show ?thesis by blast
qed

text \<open>
  Claim C10, amended. On a window with a timestamp column, distinct timestamps and every
  close between the low and the high of its bar, the signals generated from the
  indicators of the same window are never buy and never sell: the channel bounds
  include the newest bar, so its close is neither above the upper nor below the lower
  bound.
\<close>

theorem no_breakout_signal:
  assumes "has_timestamp df" and "distinct (map timestamp (rows df))"
    and "\<forall>c \<in> set (rows df). low c \<le> close c \<and> close c \<le> high c"
    and "donchian_pipeline p df = Inr (Some d)"
  shows "signal d \<noteq> Some ''buy'' \<and> signal d \<noteq> Some ''sell''"
proof -
  obtain ind pc sig str why where
    c: "donchian_calculate_indicators p df = Inr (Some ind)" and ne: "rows df \<noteq> []"
    and dec: "decide p (close (hd (rows (sort_by_timestamp False df)))) pc ind
              = Inr (sig, str, why)"
    and sg: "signal d = Some sig"
    using pipeline_SomeD [OF assms(4)] by blast
  define rs where "rs = rows (sort_by_timestamp True df)"
  have rne: "rs \<noteq> []" using ne by (simp add: rs_def rows_sorted_empty)
  have newest: "hd (rows (sort_by_timestamp False df)) = last rs"
    using assms(1) ne by (simp add: rs_def newest_first)
  have "last rs \<in> set (rows df)"
    using rne set_rows_sorted [of True df] by (auto simp: rs_def)
  then have lo: "low (last rs) \<le> close (last rs)" and hi: "close (last rs) \<le> high (last rs)"
    using assms(3) by auto
  obtain ind' where c': "donchian_calculate_indicators p df = Inr (Some ind')"
    and hh: "highest_high ind' = last (rolling list_max (period p) (map high rs))"
    and ll: "lowest_low ind' = last (rolling list_min (period p) (map low rs))"
    using calculate_indicators_returns [OF ne, of p] unfolding rs_def by blast
  have same: "ind' = ind" using c c' by simp
  have up: "\<not> fgt (Fin (close (last rs))) (highest_high ind)"
    using rolling_max_upper [OF rne, of "period p"] hi hh
    by (auto simp: same fgt_def)
  have down: "\<not> flt (Fin (close (last rs))) (lowest_low ind)"
    using rolling_min_lower [OF rne, of "period p"] lo ll
    by (auto simp: same)
  from decide_no_breakout [OF up down] dec newest have "sig \<noteq> ''buy'' \<and> sig \<noteq> ''sell''"
    by simp
  then show ?thesis by (simp add: sg)
qed


theorem no_breakout_signal_witness:
  "has_timestamp thirty_rising \<and> distinct (map timestamp (rows thirty_rising)) \<and>
   donchian_min_required_candles default_donchian \<le> length (rows thirty_rising) \<and>
   close (last (rows thirty_rising)) = 106 \<and>
   (\<exists>ind d. donchian_calculate_indicators default_donchian thirty_rising = Inr (Some ind) \<and>
            highest_high ind = Fin 106 \<and> lowest_low ind = Fin 86 \<and>
            donchian_pipeline default_donchian thirty_rising = Inr (Some d) \<and>
            signal d \<noteq> Some ''buy'' \<and> signal d \<noteq> Some ''sell'')"
proof -
  have h1: "has_timestamp thirty_rising"
    by (simp add: thirty_rising_def)
  have h2: "distinct (map timestamp (rows thirty_rising))"
    by (simp add: thirty_rising_def rising_bar_def late_breakout_bar_def)
  have h3: "\<forall>c \<in> set (rows thirty_rising). low c \<le> close c \<and> close c \<le> high c"
    by (simp add: thirty_rising_def rising_bar_def late_breakout_bar_def)
  have m: "donchian_min_required_candles default_donchian \<le> length (rows thirty_rising)"
    by (simp add: donchian_min_required_candles_def default_donchian_def thirty_rising_def)
  have l: "close (last (rows thirty_rising)) = 106"
    by (simp add: thirty_rising_def late_breakout_bar_def)
  have ne: "rows thirty_rising \<noteq> []" and len: "2 \<le> length (rows thirty_rising)"
    by (simp_all add: thirty_rising_def)
  note asc = ascending_rows [OF thirty_rising_sorted]
  obtain ind where c: "donchian_calculate_indicators default_donchian thirty_rising
      = Inr (Some ind)"
    and hh: "highest_high ind = Fin 106" and ll: "lowest_low ind = Fin 86"
    using calculate_indicators_fields [OF ne, of default_donchian]
    by (auto simp: asc default_donchian_def thirty_rising_channel)
  obtain d where d: "donchian_pipeline default_donchian thirty_rising = Inr (Some d)"
    using pipeline_returns [OF len] by blast
  from no_breakout_signal [OF h1 h2 h3 d] h1 h2 m l c hh ll d show ?thesis by blast
qed

text \<open>
  Claim C4. For every window that the strategy accepts (at least
  \<open>get_min_required_candles()\<close> rows) with positive closing prices, and a volume
  threshold that is not negative (1.5 by default), signals are generated and their
  strength is a number between 0 and 1.
\<close>

theorem strength_bounds:
  assumes "donchian_min_required_candles p \<le> length (rows df)"
    and "\<forall>c \<in> set (rows df). 0 < close c"
    and "0 \<le> volume_threshold p"
  shows "\<exists>d s. donchian_pipeline p df = Inr (Some d) \<and> strength d = Some (Fin s) \<and>
           0 \<le> s \<and> s \<le> 1"
proof -
  have len: "2 \<le> length (rows df)" and a: "atr_period p < length (rows df)"
    using assms(1) by (simp_all add: donchian_min_required_candles_def)
  then have ne: "rows df \<noteq> []" by auto
  define rs where "rs = rows (sort_by_timestamp True df)"
  have rne: "rs \<noteq> []" using ne by (simp add: rs_def rows_sorted_empty)
  obtain ind d sig str why where
    c: "donchian_calculate_indicators p df = Inr (Some ind)"
    and pl: "donchian_pipeline p df = Inr (Some d)"
    and dec: "decide p (close (hd (rows (sort_by_timestamp False df))))
       (Some (close (rows (sort_by_timestamp False df) ! 1))) ind = Inr (sig, str, why)"
    and st: "strength d = Some str"
    using pipeline_returns [OF len, of p] by blast
  obtain ind' where c': "donchian_calculate_indicators p df = Inr (Some ind')"
    and at: "atr ind' = last (rolling mean (atr_period p) (true_range rs))"
    and vol: "volatility ind' = fmul (fdiv (atr ind') (Fin (close (last rs)))) (Fin 100)"
    using calculate_indicators_returns [OF ne, of p] unfolding rs_def by blast
  have same: "ind' = ind" using c c' by simp
  have "last rs \<in> set (rows df)"
    using rne set_rows_sorted [of True df] by (auto simp: rs_def)
  then have pos: "0 < close (last rs)" using assms(2) by auto
  have "not_negative (atr ind)"
    using atr_not_negative [of "atr_period p" rs] a at
    by (simp add: same rs_def length_rows_sorted)
  then have "not_negative (volatility ind)"
    using vol pos by (simp add: same not_negative_fdiv not_negative_fmul)
  from decide_strength [OF dec assms(3) this] pl st show ?thesis by auto
qed

theorem strength_bounds_witness:
  "donchian_min_required_candles default_donchian \<le> length (rows thirty_candles) \<and>
   0 < list_min (map close (rows thirty_candles)) \<and>
   0 \<le> volume_threshold default_donchian \<and>
   (\<exists>d s. donchian_pipeline default_donchian thirty_candles = Inr (Some d) \<and>
          strength d = Some (Fin s) \<and> 0 \<le> s \<and> s \<le> 1)"
proof -
  have h1: "donchian_min_required_candles default_donchian \<le> length (rows thirty_candles)"
    by (simp add: donchian_min_required_candles_def default_donchian_def thirty_candles_def)
  have h2: "\<forall>c \<in> set (rows thirty_candles). 0 < close c"
    by (auto simp: thirty_candles_def flat_candle_def)
  have h3: "0 \<le> volume_threshold default_donchian"
    by (simp add: default_donchian_def)
  have "map close (rows thirty_candles) \<noteq> []"
    by (simp add: thirty_candles_def)
  then have m: "0 < list_min (map close (rows thirty_candles))"
    using h2 by (intro list_min_pos) auto
  from strength_bounds [OF h1 h2 h3] h1 m h3 show ?thesis by blast
qed

text \<open>
  Claim C1, at the breakout window. The claim asks for a buy signal with a stop-loss
  level and a strength between 0.5 and 0.9. The window is the scenario of the claim:
  bar 24 closes at 100, the high of the 20 bars before bar 25, bar 25 closes at 101 and
  the volume ratio is 2. The upper channel bound computed from the window is 101, the
  high of bar 25 itself, so the close is not above it: the signal is neutral with
  strength 0 and no stop-loss level, also when the trend filter is set to true (the
  indicators of 25 bars have it false, the 50-bar average being NaN).
\<close>

theorem breakout_window_gives_no_buy:
  "close (rows breakout_window ! 23) = 100 \<and>
   list_max (map high (take 20 (drop 4 (rows breakout_window)))) = 100 \<and>
   close (rows breakout_window ! 24) = 101 \<and>
   (\<exists>ind d d'.
      donchian_calculate_indicators default_donchian breakout_window = Inr (Some ind) \<and>
      highest_high ind = Fin 101 \<and> volume_ratio ind = Fin 2 \<and> atr ind = Fin 1 \<and>
      \<not> trend_up ind \<and>
      donchian_generate_signals default_donchian breakout_window (Some ind) = Inr (Some d) \<and>
      signal d = Some ''neutral'' \<and> strength d = Some (Fin 0) \<and> stop_loss_level d = None \<and>
      donchian_generate_signals default_donchian breakout_window
        (Some (ind\<lparr>trend_up := True\<rparr>)) = Inr (Some d') \<and>
      signal d' = Some ''neutral'' \<and> strength d' = Some (Fin 0) \<and> stop_loss_level d' = None)"
proof (intro conjI)
  show "close (rows breakout_window ! 23) = 100"
    and "list_max (map high (take 20 (drop 4 (rows breakout_window)))) = 100"
    and "close (rows breakout_window ! 24) = 101"
    by (simp_all add: breakout_window_def rising_bar_def breakout_bar_def)
next
  have ne: "rows breakout_window \<noteq> []" and len: "2 \<le> length (rows breakout_window)"
    and ts: "has_timestamp breakout_window"
    by (simp_all add: breakout_window_def)
  note asc = ascending_rows [OF breakout_sorted]
  note desc = descending_rows [OF ts breakout_sorted]
  obtain ind where c: "donchian_calculate_indicators default_donchian breakout_window
      = Inr (Some ind)"
    and hh: "highest_high ind = Fin 101" and ll: "lowest_low ind = Fin 81"
    and eh: "exit_high ind = Fin 101" and el: "exit_low ind = Fin 91"
    and at: "atr ind = Fin 1" and vr: "volume_ratio ind = Fin 2" and tu: "\<not> trend_up ind"
    using calculate_indicators_fields [OF ne, of default_donchian]
    by (auto simp: asc default_donchian_def breakout_channel breakout_atr breakout_volume
        breakout_trend)
  have cc: "close (hd (rows (sort_by_timestamp False breakout_window))) = 101"
    by (simp add: desc hd_rev) (simp add: breakout_window_def breakout_bar_def)
  define ind' where "ind' = ind\<lparr>trend_up := True\<rparr>"
  have dec: "decide default_donchian 101 pc ind = Inr (''neutral'', Fin 0, NoClearSignals)" for pc
    by (rule decide_at_upper_bound [OF hh ll _ eh el _ at]) simp_all
  have dec': "decide default_donchian 101 pc ind' = Inr (''neutral'', Fin 0, NoClearSignals)" for pc
  proof -
    have hh': "highest_high ind' = Fin 101" and ll': "lowest_low ind' = Fin 81"
      and eh': "exit_high ind' = Fin 101" and el': "exit_low ind' = Fin 91"
      and at': "atr ind' = Fin 1"
      by (simp_all add: ind'_def hh ll eh el at)
    show ?thesis
      by (rule decide_at_upper_bound [OF hh' ll' _ eh' el' _ at']) simp_all
  qed
  obtain d where g: "donchian_generate_signals default_donchian breakout_window (Some ind)
      = Inr (Some d)"
    and s: "signal d = Some ''neutral''" "strength d = Some (Fin 0)" "stop_loss_level d = None"
    using generate_signals_levels [OF len, of default_donchian ind]
    by (auto simp: cc dec)
  obtain d' where g': "donchian_generate_signals default_donchian breakout_window (Some ind')
      = Inr (Some d')"
    and s': "signal d' = Some ''neutral''" "strength d' = Some (Fin 0)"
      "stop_loss_level d' = None"
    using generate_signals_levels [OF len, of default_donchian ind']
    by (auto simp: cc dec')
  show "\<exists>ind d d'.
      donchian_calculate_indicators default_donchian breakout_window = Inr (Some ind) \<and>
      highest_high ind = Fin 101 \<and> volume_ratio ind = Fin 2 \<and> atr ind = Fin 1 \<and>
      \<not> trend_up ind \<and>
      donchian_generate_signals default_donchian breakout_window (Some ind) = Inr (Some d) \<and>
      signal d = Some ''neutral'' \<and> strength d = Some (Fin 0) \<and> stop_loss_level d = None \<and>
      donchian_generate_signals default_donchian breakout_window
        (Some (ind\<lparr>trend_up := True\<rparr>)) = Inr (Some d') \<and>
      signal d' = Some ''neutral'' \<and> strength d' = Some (Fin 0) \<and> stop_loss_level d' = None"
    using c hh vr at tu g s g' s' unfolding ind'_def by blast
qed

end
